theory Spec2Isabelle
  imports Main "HOL-Library.Word"
begin

section \<open>The DirectX 12 graphics driver: data model\<close>

text \<open>
  The two source files are \<^verbatim>\<open>internal/graphicsdriver/directx/graphics_windows.go\<close> and
  \<^verbatim>\<open>internal/graphicsdriver/directx/pipeline_windows.go\<close>. Every COM object the driver
  holds a pointer to (resources, blobs, heaps, pipeline states) is a handle, a natural
  number; a Go pointer is a \<open>nat option\<close>, \<open>None\<close> being \<^verbatim>\<open>nil\<close>. A Go \<^verbatim>\<open>error\<close> return
  and a Go panic are both values of \<open>failure\<close>, returned as \<open>Inl\<close>.
\<close>

datatype failure =
    Error string
  | DeviceError nat
  | PanicInvalidOperation
  | PanicIndexOutOfRange
  | PanicNilPointer

text \<open>
  \<^verbatim>\<open>graphicsdriver.Operation\<close> is a Go integer type whose seven constants are declared in
  package \<^verbatim>\<open>graphicsdriver\<close>. The seven constructors are the seven constants that
  \<^verbatim>\<open>operationToBlend\<close> names; \<open>OtherOperation n\<close> is any value of the integer type that is
  none of them.
\<close>

datatype Operation =
    Zero
  | One
  | SrcAlpha
  | DstAlpha
  | OneMinusSrcAlpha
  | OneMinusDstAlpha
  | DstColor
  | OtherOperation int

text \<open>The values of \<^verbatim>\<open>_D3D12_BLEND\<close> and \<^verbatim>\<open>_D3D12_BLEND_OP\<close> that the driver uses.\<close>

datatype D3D12_BLEND =
    D3D12_BLEND_ZERO
  | D3D12_BLEND_ONE
  | D3D12_BLEND_SRC_ALPHA
  | D3D12_BLEND_DEST_ALPHA
  | D3D12_BLEND_INV_SRC_ALPHA
  | D3D12_BLEND_INV_DEST_ALPHA
  | D3D12_BLEND_DEST_COLOR

datatype D3D12_BLEND_OP = D3D12_BLEND_OP_ADD

text \<open>The values of \<^verbatim>\<open>_D3D12_RESOURCE_STATES\<close> that the driver uses.\<close>

datatype D3D12_RESOURCE_STATES =
    D3D12_RESOURCE_STATE_PRESENT
  | D3D12_RESOURCE_STATE_RENDER_TARGET
  | D3D12_RESOURCE_STATE_PIXEL_SHADER_RESOURCE
  | D3D12_RESOURCE_STATE_COPY_DEST
  | D3D12_RESOURCE_STATE_COPY_SOURCE

subsection \<open>Go slices\<close>

text \<open>
  A Go slice is a window of length \<open>len\<close> on a backing array; \<open>arr\<close> is the backing array
  from the slice's first element on, so the capacity is \<open>length arr\<close>. Truncating with
  \<^verbatim>\<open>s[:0]\<close> keeps the array and its elements; \<^verbatim>\<open>s[:n]\<close> within the capacity makes them
  visible again. \<^verbatim>\<open>append\<close> writes in place when there is room and otherwise copies the
  elements to a new array with some spare, zeroed room, whose size the Go runtime
  chooses (the argument \<open>spare\<close>).
\<close>

record 'a slice =
  arr :: "'a list"
  len :: nat

definition nilSlice :: "'a slice" where
  "nilSlice = \<lparr>arr = [], len = 0\<rparr>"

definition cap :: "'a slice \<Rightarrow> nat" where
  "cap s = length (arr s)"

definition elems :: "'a slice \<Rightarrow> 'a list" where
  "elems s = take (len s) (arr s)"

definition reslice :: "'a slice \<Rightarrow> nat \<Rightarrow> 'a slice" where
  "reslice s n = s\<lparr>len := n\<rparr>"

definition append1 :: "nat \<Rightarrow> 'a \<Rightarrow> 'a slice \<Rightarrow> 'a \<Rightarrow> 'a slice" where
  "append1 spare zero s x =
     (if len s < cap s then \<lparr>arr = (arr s)[len s := x], len = len s + 1\<rparr>
      else \<lparr>arr = take (len s) (arr s) @ [x] @ replicate spare zero, len = len s + 1\<rparr>)"

definition setAt :: "'a slice \<Rightarrow> nat \<Rightarrow> 'a \<Rightarrow> 'a slice" where
  "setAt s i x = s\<lparr>arr := (arr s)[i := x]\<rparr>"

text \<open>
  The idiom of \<^verbatim>\<open>SetVertices\<close> and \<^verbatim>\<open>useGraphicsPipelineState\<close>: grow the list by one
  element, reusing the capacity (and the buffer stored there) when there is some.
\<close>

definition growByOne :: "nat \<Rightarrow> (nat option) slice \<Rightarrow> (nat option) slice" where
  "growByOne spare s =
     (if cap s > len s then reslice s (len s + 1) else append1 spare None s None)"

subsection \<open>The device and what it has been asked to do\<close>

record D3D12_RENDER_TARGET_BLEND_DESC =
  BlendEnable :: nat
  LogicOpEnable :: nat
  SrcBlend :: D3D12_BLEND
  DestBlend :: D3D12_BLEND
  BlendOp :: D3D12_BLEND_OP
  SrcBlendAlpha :: D3D12_BLEND
  DestBlendAlpha :: D3D12_BLEND
  BlendOpAlpha :: D3D12_BLEND_OP

record D3D12_GRAPHICS_PIPELINE_STATE_DESC =
  pRootSignature :: nat
  VS :: nat
  PS :: nat
  RenderTarget0 :: D3D12_RENDER_TARGET_BLEND_DESC

datatype descriptor =
    ConstantBufferView "nat option"
  | ShaderResourceView "nat option"

text \<open>
  What is copied into a mapped upload buffer: the caller's vertices (each \<^verbatim>\<open>float32\<close> as
  its 32 bits), the caller's indices, or the pair \<^verbatim>\<open>float32(w), float32(h)\<close> of the
  destination's size, kept as the two integers it is converted from.
\<close>

datatype contents =
    Float32s "32 word list"
  | Uint16s "16 word list"
  | ScreenSize int int

text \<open>
  The device: the next fresh handle, the \<^verbatim>\<open>Release\<close> calls made so far, the size each
  descriptor heap was created with, the views written into descriptor heaps (by heap and
  by offset in descriptors from the heap's start), the description each pipeline state
  was created from, and the data last copied into each mapped buffer.
\<close>

record device =
  nextHandle :: nat
  released :: "nat list"
  heapSize :: "nat \<rightharpoonup> nat"
  descriptors :: "nat \<times> int \<rightharpoonup> descriptor"
  pipelineDescs :: "nat \<rightharpoonup> D3D12_GRAPHICS_PIPELINE_STATE_DESC"
  bufferContents :: "nat \<rightharpoonup> contents"

definition create :: "device \<Rightarrow> nat \<times> device" where
  "create d = (nextHandle d, d\<lparr>nextHandle := nextHandle d + 1\<rparr>)"

definition Release :: "nat \<Rightarrow> device \<Rightarrow> device" where
  "Release h d = d\<lparr>released := released d @ [h]\<rparr>"

text \<open>
  What the world outside the driver answers during one call of the driver: the error of
  each fallible call of the Direct3D, DXGI and Windows APIs (\<open>None\<close> is success), the
  values the GPU and the swap chain report, and the spare capacity the Go runtime gives a
  slice it reallocates. \<^verbatim>\<open>CompositeMode.Operations\<close> is declared in package
  \<^verbatim>\<open>graphicsdriver\<close>; it returns a pair of operations or panics, and is taken as given,
  as is \<^verbatim>\<open>graphics.InternalImageSize\<close>.

  \<^verbatim>\<open>windows.WaitForSingleObject\<close> returns the wait status as its first result
  (\<^verbatim>\<open>WAIT_OBJECT_0 = 0\<close>, \<^verbatim>\<open>WAIT_TIMEOUT = 0x102\<close>, \<^verbatim>\<open>WAIT_FAILED = 0xFFFFFFFF\<close>) and a
  non-nil error as its second only with \<^verbatim>\<open>WAIT_FAILED\<close>.
\<close>

record outcomes =
  spareCap :: nat
  Operations :: "int \<Rightarrow> failure + Operation \<times> Operation"
  serializeRootSignature :: "failure option"
  createRootSignature :: "failure option"
  compileVS :: "failure option"
  compilePS :: "failure option"
  createGraphicsPipelineState :: "failure option"
  createConstantBuffer :: "failure option"
  mapConstantBuffer :: "failure option"
  unmapConstantBuffer :: "failure option"
  createShaderHeap :: "failure option"
  createSamplerHeap :: "failure option"
  descriptorHandleIncrementSize :: "32 word"
  createRTVHeap :: "failure option"
  createVertexBuffer :: "failure option"
  createIndexBuffer :: "failure option"
  mapVertices :: "failure option"
  unmapVertices :: "failure option"
  mapIndices :: "failure option"
  unmapIndices :: "failure option"
  currentBackBufferIndex :: nat
  allocatorReset :: "failure option"
  commandListReset :: "failure option"
  commandListClose :: "failure option"
  present :: "failure option"
  signal :: "failure option"
  completedValue :: "64 word"
  setEventOnCompletion :: "failure option"
  waitForSingleObject :: "32 word \<times> failure option"
  InternalImageSize :: "int \<Rightarrow> int"

section \<open>pipeline_windows.go\<close>

definition frameCount :: nat where
  "frameCount = 2"

definition numDescriptorsPerFrame :: nat where
  "numDescriptorsPerFrame = 256"

text \<open>
  \<^verbatim>\<open>graphics.ShaderImageNum\<close> is declared in package \<^verbatim>\<open>graphics\<close>; its value 4 is the one
  the comment of \<^verbatim>\<open>initialize\<close> gives (\<^verbatim>\<open>5n+0: constants, 5n+m (1<=4): textures\<close>).
\<close>

definition ShaderImageNum :: nat where
  "ShaderImageNum = 4"

definition numConstantBufferAndSourceTextures :: nat where
  "numConstantBufferAndSourceTextures = 1 + ShaderImageNum"

definition operationToBlend :: "Operation \<Rightarrow> failure + D3D12_BLEND" where
  "operationToBlend c =
     (case c of
        Zero \<Rightarrow> Inr D3D12_BLEND_ZERO
      | One \<Rightarrow> Inr D3D12_BLEND_ONE
      | SrcAlpha \<Rightarrow> Inr D3D12_BLEND_SRC_ALPHA
      | DstAlpha \<Rightarrow> Inr D3D12_BLEND_DEST_ALPHA
      | OneMinusSrcAlpha \<Rightarrow> Inr D3D12_BLEND_INV_SRC_ALPHA
      | OneMinusDstAlpha \<Rightarrow> Inr D3D12_BLEND_INV_DEST_ALPHA
      | DstColor \<Rightarrow> Inr D3D12_BLEND_DEST_COLOR
      | OtherOperation n \<Rightarrow> Inl PanicInvalidOperation)"

record pipelineStatesKey =
  compositeMode :: int
  screen :: bool

record pipelineStatesValue =
  rootSignature :: "nat option"
  vertexShader :: "nat option"
  pixelShader :: "nat option"
  pstate :: "nat option"

text \<open>
  A Go array \<^verbatim>\<open>[frameCount]T\<close> is a function on indices; every access checks
  \<open>i < frameCount\<close> first and panics otherwise, as Go does. A nil Go map reads as the empty map, and \<^verbatim>\<open>graphicsPipelineState\<close> allocates the map
  before it writes to it, so \<open>cache\<close> is the map of its entries.
\<close>

record pipelineStates =
  cache :: "(int \<times> bool) \<rightharpoonup> pipelineStatesValue"
  shaderDescriptorHeap :: "nat option"
  shaderDescriptorSize :: "32 word"
  samplerDescriptorHeap :: "nat option"
  lastFrameIndex :: nat
  constantBuffers :: "nat \<Rightarrow> (nat option) slice"

definition keyOf :: "pipelineStatesKey \<Rightarrow> int \<times> bool" where
  "keyOf k = (compositeMode k, screen k)"

text \<open>\<^verbatim>\<open>pipelineStates.initialize\<close>: the two descriptor heaps.\<close>

definition initialize :: "outcomes \<Rightarrow> device \<Rightarrow> pipelineStates \<Rightarrow> (failure + unit) \<times> device \<times> pipelineStates" where
  "initialize w d p =
     (case createShaderHeap w of
        Some e \<Rightarrow> (Inl e, d, p)
      | None \<Rightarrow>
          let (shaderH, d1) = create d;
              d2 = d1\<lparr>heapSize := (heapSize d1)
                     (shaderH \<mapsto> frameCount * numDescriptorsPerFrame * numConstantBufferAndSourceTextures)\<rparr>;
              p1 = p\<lparr>shaderDescriptorHeap := Some shaderH,
                     shaderDescriptorSize := descriptorHandleIncrementSize w\<rparr>
          in (case createSamplerHeap w of
                Some e \<Rightarrow> (Inl e, Release shaderH d2, p1\<lparr>shaderDescriptorHeap := None\<rparr>)
              | None \<Rightarrow>
                  let (samplerH, d3) = create d2;
                      d4 = d3\<lparr>heapSize := (heapSize d3)(samplerH \<mapsto> 1)\<rparr>
                  in (Inr (), d4, p1\<lparr>samplerDescriptorHeap := Some samplerH\<rparr>)))"

text \<open>
  The blend factors of a key: \<^verbatim>\<open>key.compositeMode.Operations()\<close>, then \<^verbatim>\<open>operationToBlend\<close>
  of the source operation and of the destination operation, any of which may panic.
\<close>

definition blendFactors :: "outcomes \<Rightarrow> pipelineStatesKey \<Rightarrow> failure + D3D12_BLEND \<times> D3D12_BLEND" where
  "blendFactors w key =
     (case Operations w (compositeMode key) of
        Inl e \<Rightarrow> Inl e
      | Inr (srcOp, dstOp) \<Rightarrow>
          (case operationToBlend srcOp of
             Inl e \<Rightarrow> Inl e
           | Inr sb \<Rightarrow>
               (case operationToBlend dstOp of
                  Inl e \<Rightarrow> Inl e
                | Inr db \<Rightarrow> Inr (sb, db))))"

text \<open>
  \<^verbatim>\<open>pipelineStates.graphicsPipelineState\<close>. The deferred calls run last registered first:
  on an error return the pixel shader, the vertex shader and the root signature are
  released (those created so far), then the serialized signature blob, which is released
  on every return. A panic of \<^verbatim>\<open>Operations\<close> or \<^verbatim>\<open>operationToBlend\<close> leaves the named
  result \<^verbatim>\<open>ferr\<close> nil, so only the blob is released. The rasterizer state, the input
  layout and the other constant fields of the description are left out.
\<close>

definition graphicsPipelineState ::
  "outcomes \<Rightarrow> device \<Rightarrow> pipelineStates \<Rightarrow> pipelineStatesKey
   \<Rightarrow> (failure + pipelineStatesValue) \<times> device \<times> pipelineStates" where
  "graphicsPipelineState w d p key =
     (case cache p (keyOf key) of
        Some s \<Rightarrow> (Inr s, d, p)
      | None \<Rightarrow>
     (case serializeRootSignature w of
        Some e \<Rightarrow> (Inl e, d, p)
      | None \<Rightarrow>
     let (sig, d1) = create d in
     (case createRootSignature w of
        Some e \<Rightarrow> (Inl e, Release sig d1, p)
      | None \<Rightarrow>
     let (rs, d2) = create d1 in
     (case compileVS w of
        Some e \<Rightarrow> (Inl e, Release sig (Release rs d2), p)
      | None \<Rightarrow>
     let (vsh, d3) = create d2 in
     (case compilePS w of
        Some e \<Rightarrow> (Inl e, Release sig (Release rs (Release vsh d3)), p)
      | None \<Rightarrow>
     let (psh, d4) = create d3 in
     (case blendFactors w key of
        Inl e \<Rightarrow> (Inl e, Release sig d4, p)
      | Inr (sb, db) \<Rightarrow>
     let renderTargetBlendDesc =
           \<lparr>BlendEnable = 1, LogicOpEnable = 0,
            SrcBlend = sb, DestBlend = db, BlendOp = D3D12_BLEND_OP_ADD,
            SrcBlendAlpha = sb, DestBlendAlpha = db, BlendOpAlpha = D3D12_BLEND_OP_ADD\<rparr>;
         psoDesc = \<lparr>pRootSignature = rs, VS = vsh, PS = psh,
                    RenderTarget0 = renderTargetBlendDesc\<rparr>
     in
     (case createGraphicsPipelineState w of
        Some e \<Rightarrow>
          (Inl e, Release sig (Release rs (Release vsh (Release psh d4))), p)
      | None \<Rightarrow>
     let (s, d5) = create d4;
         d6 = d5\<lparr>pipelineDescs := (pipelineDescs d5)(s \<mapsto> psoDesc)\<rparr>;
         psv = \<lparr>rootSignature = Some rs, vertexShader = Some vsh,
                pixelShader = Some psh, pstate = Some s\<rparr>
     in (Inr psv, Release sig d6, p\<lparr>cache := (cache p)(keyOf key \<mapsto> psv)\<rparr>))))))))"

subsection \<open>The command list\<close>

text \<open>
  The commands the driver records. A viewport is given by the destination's size; the
  scissor rectangle, computed in floating point, is left out of the command.
\<close>

datatype command =
    ResourceBarrier "nat option" D3D12_RESOURCE_STATES D3D12_RESOURCE_STATES
  | OMSetRenderTargets "nat option" nat
  | SetPipelineState "nat option"
  | SetGraphicsRootSignature "nat option"
  | SetDescriptorHeaps "nat option list"
  | SetGraphicsRootDescriptorTable nat "nat option" int
  | RSSetViewports int int
  | RSSetScissorRects
  | IASetPrimitiveTopology
  | IASetVertexBuffers nat
  | IASetIndexBuffer nat
  | DrawIndexedInstanced "32 word" "32 word"

text \<open>
  The offset, in descriptors from the start of the shader-visible heap, that
  \<^verbatim>\<open>useGraphicsPipelineState\<close> gives \<^verbatim>\<open>Offset\<close> for draw \<open>idx\<close> of frame \<open>frameIndex\<close>:
  \<^verbatim>\<open>frameIndex*numDescriptorsPerFrame+numConstantBufferAndSourceTextures*idx\<close>. Where it
  is used \<open>frameIndex < 2\<close> and \<open>idx < 512\<close>, so the conversion to \<^verbatim>\<open>int32\<close> is exact.
\<close>

definition descriptorOffset :: "nat \<Rightarrow> nat \<Rightarrow> int" where
  "descriptorOffset frameIndex idx =
     int (frameIndex * numDescriptorsPerFrame + numConstantBufferAndSourceTextures * idx)"

text \<open>
  \<^verbatim>\<open>pipelineStates.useGraphicsPipelineState\<close>. The result is the error or panic, the
  device, the commands recorded so far and the pipeline states, each as the call leaves it.
\<close>

definition useGraphicsPipelineState ::
  "outcomes \<Rightarrow> device \<Rightarrow> command list \<Rightarrow> pipelineStates \<Rightarrow> nat \<Rightarrow> pipelineStatesKey
   \<Rightarrow> int \<Rightarrow> int \<Rightarrow> nat option
   \<Rightarrow> (failure + unit) \<times> device \<times> command list \<times> pipelineStates" where
  "useGraphicsPipelineState w d cl p frameIndex key screenWidth screenHeight sourceTexture =
     (case graphicsPipelineState w d p key of
        (Inl e, d0, p0) \<Rightarrow> (Inl e, d0, cl, p0)
      | (Inr psv, d0, p0) \<Rightarrow>
     if \<not> frameIndex < frameCount then (Inl PanicIndexOutOfRange, d0, cl, p0) else
     let p1 = (if lastFrameIndex p0 \<noteq> frameIndex
               then p0\<lparr>constantBuffers := (constantBuffers p0)
                         (frameIndex := reslice (constantBuffers p0 frameIndex) 0)\<rparr>
               else p0);
         p2 = p1\<lparr>lastFrameIndex := frameIndex\<rparr>;
         idx = len (constantBuffers p2 frameIndex)
     in
     if idx \<ge> numDescriptorsPerFrame * 2
     then (Inl (Error ''directx: too many constant buffers''), d0, cl, p2) else
     let p3 = p2\<lparr>constantBuffers := (constantBuffers p2)
                  (frameIndex := growByOne (spareCap w) (constantBuffers p2 frameIndex))\<rparr>
     in
     (case (case arr (constantBuffers p3 frameIndex) ! idx of
              Some cb \<Rightarrow> (Inr cb, d0, p3)
            | None \<Rightarrow>
                (case createConstantBuffer w of
                   Some e \<Rightarrow> (Inl e, d0, p3)
                 | None \<Rightarrow>
                     let (cb, d1) = create d0;
                         p4 = p3\<lparr>constantBuffers := (constantBuffers p3)
                                (frameIndex := setAt (constantBuffers p3 frameIndex) idx (Some cb))\<rparr>
                     in (case shaderDescriptorHeap p4 of
                           None \<Rightarrow> (Inl PanicNilPointer, d1, p4)
                         | Some h \<Rightarrow>
                             (Inr cb,
                              d1\<lparr>descriptors := (descriptors d1)
                                   ((h, descriptorOffset frameIndex idx) \<mapsto> ConstantBufferView (Some cb))\<rparr>,
                              p4)))) of
        (Inl e, d2, p5) \<Rightarrow> (Inl e, d2, cl, p5)
      | (Inr cb, d2, p5) \<Rightarrow>
     (case shaderDescriptorHeap p5 of
        None \<Rightarrow> (Inl PanicNilPointer, d2, cl, p5)
      | Some h \<Rightarrow>
     let d3 = d2\<lparr>descriptors := (descriptors d2)
                  ((h, descriptorOffset frameIndex idx + 1) \<mapsto> ShaderResourceView sourceTexture)\<rparr>
     in
     (case mapConstantBuffer w of
        Some e \<Rightarrow> (Inl e, d3, cl, p5)
      | None \<Rightarrow>
     let d4 = d3\<lparr>bufferContents := (bufferContents d3)(cb \<mapsto> ScreenSize screenWidth screenHeight)\<rparr>
     in
     (case unmapConstantBuffer w of
        Some e \<Rightarrow> (Inl e, d4, cl, p5)
      | None \<Rightarrow>
     (case samplerDescriptorHeap p5 of
        None \<Rightarrow>
          (Inl PanicNilPointer, d4,
           cl @ [SetPipelineState (pstate psv), SetGraphicsRootSignature (rootSignature psv),
                 SetDescriptorHeaps [shaderDescriptorHeap p5, samplerDescriptorHeap p5],
                 SetGraphicsRootDescriptorTable 0 (Some h) (descriptorOffset frameIndex idx),
                 SetGraphicsRootDescriptorTable 1 (Some h) (descriptorOffset frameIndex idx + 1)],
           p5)
      | Some sh \<Rightarrow>
          (Inr (), d4,
           cl @ [SetPipelineState (pstate psv), SetGraphicsRootSignature (rootSignature psv),
                 SetDescriptorHeaps [shaderDescriptorHeap p5, samplerDescriptorHeap p5],
                 SetGraphicsRootDescriptorTable 0 (Some h) (descriptorOffset frameIndex idx),
                 SetGraphicsRootDescriptorTable 1 (Some h) (descriptorOffset frameIndex idx + 1),
                 SetGraphicsRootDescriptorTable 2 (Some sh) 0],
           p5)))))))"


section \<open>graphics_windows.go\<close>

record Image =
  img_id :: int
  img_width :: int
  img_height :: int
  img_screen :: bool
  img_state :: D3D12_RESOURCE_STATES
  img_texture :: "nat option"
  img_stagingBuffer :: "nat option"
  img_rtvDescriptorHeap :: "nat option"
  img_needsSync :: bool

text \<open>The calls made on the command allocators, the command queue, the swap chain and the fences.\<close>

datatype call =
    AllocatorReset nat
  | CommandListReset nat
  | CommandListClose
  | ExecuteCommandLists "command list"
  | Present
  | Signal nat "64 word"
  | SetEventOnCompletion nat "64 word"
  | WaitForSingleObject nat

text \<open>
  The \<^verbatim>\<open>Graphics\<close> struct after \<^verbatim>\<open>Initialize\<close>: the command queue, the command list, the
  two command allocators and the two fences exist and are named by their slot. An
  \<^verbatim>\<open>*Image\<close> is an address into \<open>imageHeap\<close>. \<open>commandList\<close> is what has been recorded since
  the last reset, \<open>calls\<close> the calls made so far on the other objects.
\<close>

record Graphics =
  dev :: device
  calls :: "call list"
  rtvDescriptorHeap :: "nat option"
  renderTargets :: "nat \<Rightarrow> nat option"
  fenceValues :: "nat \<Rightarrow> 64 word"
  commandList :: "command list"
  vertices :: "nat \<Rightarrow> (nat option) slice"
  indices :: "nat \<Rightarrow> (nat option) slice"
  swapChain :: "nat option"
  frameIndex :: nat
  images :: "int \<rightharpoonup> nat"
  screenImage :: "nat option"
  nextImageID :: int
  disposedImages :: "nat \<Rightarrow> (nat option) slice"
  pipeline :: pipelineStates
  imageHeap :: "nat \<rightharpoonup> Image"

text \<open>\<^verbatim>\<open>Graphics.Begin\<close>.\<close>

definition Begin :: "outcomes \<Rightarrow> Graphics \<Rightarrow> (failure + unit) \<times> Graphics" where
  "Begin w g =
     (let g1 = g\<lparr>frameIndex := 0\<rparr>;
          g2 = (if swapChain g1 \<noteq> None then g1\<lparr>frameIndex := currentBackBufferIndex w\<rparr> else g1)
      in if \<not> frameIndex g2 < frameCount then (Inl PanicIndexOutOfRange, g2) else
         let g3 = g2\<lparr>calls := calls g2 @ [AllocatorReset (frameIndex g2)]\<rparr> in
         (case allocatorReset w of
            Some e \<Rightarrow> (Inl e, g3)
          | None \<Rightarrow>
              let g4 = g3\<lparr>calls := calls g3 @ [CommandListReset (frameIndex g3)]\<rparr> in
              (case commandListReset w of
                 Some e \<Rightarrow> (Inl e, g4)
               | None \<Rightarrow> (Inr (), g4\<lparr>commandList := []\<rparr>))))"

text \<open>\<^verbatim>\<open>Image.resource\<close>, \<^verbatim>\<open>Image.transiteState\<close> and \<^verbatim>\<open>Image.disposeImpl\<close>, on the image at address \<open>a\<close>.\<close>

definition resource :: "Graphics \<Rightarrow> Image \<Rightarrow> failure + nat option" where
  "resource g i =
     (if img_screen i
      then (if frameIndex g < frameCount then Inr (renderTargets g (frameIndex g))
            else Inl PanicIndexOutOfRange)
      else Inr (img_texture i))"

definition transiteState :: "nat option \<Rightarrow> D3D12_RESOURCE_STATES \<Rightarrow> Graphics \<Rightarrow> (failure + unit) \<times> Graphics" where
  "transiteState a newState g =
     (case a of
        None \<Rightarrow> (Inl PanicNilPointer, g)
      | Some a \<Rightarrow>
     (case imageHeap g a of
        None \<Rightarrow> (Inl PanicNilPointer, g)
      | Some i \<Rightarrow>
          if img_state i = newState then (Inr (), g)
          else (case resource g i of
                  Inl e \<Rightarrow> (Inl e, g)
                | Inr r \<Rightarrow>
                    (Inr (),
                     g\<lparr>commandList := commandList g @ [ResourceBarrier r (img_state i) newState],
                       imageHeap := (imageHeap g)(a \<mapsto> i\<lparr>img_state := newState\<rparr>)\<rparr>))))"

definition disposeImpl :: "Image \<Rightarrow> device \<Rightarrow> Image \<times> device" where
  "disposeImpl i d =
     (let (i1, d1) = (case img_rtvDescriptorHeap i of
                        Some h \<Rightarrow> (i\<lparr>img_rtvDescriptorHeap := None\<rparr>, Release h d)
                      | None \<Rightarrow> (i, d));
          (i2, d2) = (case img_stagingBuffer i1 of
                        Some h \<Rightarrow> (i1\<lparr>img_stagingBuffer := None\<rparr>, Release h d1)
                      | None \<Rightarrow> (i1, d1))
      in (case img_texture i2 of
            Some h \<Rightarrow> (i2\<lparr>img_texture := None\<rparr>, Release h d2)
          | None \<Rightarrow> (i2, d2)))"

text \<open>
  The loop of \<^verbatim>\<open>End\<close> over \<^verbatim>\<open>g.disposedImages[nextIndex]\<close>: \<open>imgs\<close> are the elements from
  index \<open>i\<close> on, as they were when the loop started.
\<close>

primrec disposeLoop :: "nat \<Rightarrow> nat \<Rightarrow> nat option list \<Rightarrow> Graphics \<Rightarrow> (failure + unit) \<times> Graphics" where
  "disposeLoop nextIndex i [] g = (Inr (), g)"
| "disposeLoop nextIndex i (img # imgs) g =
     (case img of
        None \<Rightarrow> (Inl PanicNilPointer, g)
      | Some a \<Rightarrow>
     (case imageHeap g a of
        None \<Rightarrow> (Inl PanicNilPointer, g)
      | Some im \<Rightarrow>
          let (im1, d1) = disposeImpl im (dev g);
              g1 = g\<lparr>dev := d1, imageHeap := (imageHeap g)(a \<mapsto> im1),
                     disposedImages := (disposedImages g)
                       (nextIndex := setAt (disposedImages g nextIndex) i None)\<rparr>
          in disposeLoop nextIndex (i + 1) imgs g1))"

text \<open>
  \<^verbatim>\<open>Graphics.End\<close>. \<^verbatim>\<open>gpuWaitTimeout\<close> is in milliseconds. \<open>reclaim\<close> is the end of the
  body of \<^verbatim>\<open>End\<close>, from the truncation of \<^verbatim>\<open>g.vertices[nextIndex]\<close> on. The error of
  \<^verbatim>\<open>WaitForSingleObject\<close> is its second result; \<^verbatim>\<open>End\<close> drops the first.
\<close>

definition gpuWaitTimeout :: nat where
  "gpuWaitTimeout = 10 * 1000"

definition reclaim :: "nat \<Rightarrow> Graphics \<Rightarrow> (failure + unit) \<times> Graphics" where
  "reclaim nextIndex g =
     (let g1 = g\<lparr>vertices := (vertices g)(nextIndex := reslice (vertices g nextIndex) 0)\<rparr>;
          g2 = g1\<lparr>indices := (indices g1)(nextIndex := reslice (indices g1 nextIndex) 0)\<rparr>
      in (case disposeLoop nextIndex 0 (elems (disposedImages g2 nextIndex)) g2 of
            (Inl e, g3) \<Rightarrow> (Inl e, g3)
          | (Inr u, g3) \<Rightarrow>
              (Inr (), g3\<lparr>disposedImages := (disposedImages g3)
                             (nextIndex := reslice (disposedImages g3 nextIndex) 0)\<rparr>)))"

definition End :: "outcomes \<Rightarrow> bool \<Rightarrow> Graphics \<Rightarrow> (failure + unit) \<times> Graphics" where
  "End w presentFlag g =
     (if swapChain g = None
      then (Inl (Error ''directx: the swap chain is not initialized yet at End''), g) else
      (case (if presentFlag then transiteState (screenImage g) D3D12_RESOURCE_STATE_PRESENT g
             else (Inr (), g)) of
         (Inl e, g1) \<Rightarrow> (Inl e, g1)
       | (Inr u, g1) \<Rightarrow>
      let g2 = g1\<lparr>calls := calls g1 @ [CommandListClose]\<rparr> in
      (case commandListClose w of
         Some e \<Rightarrow> (Inl e, g2)
       | None \<Rightarrow>
      let g3 = g2\<lparr>calls := calls g2 @ [ExecuteCommandLists (commandList g2)]\<rparr> in
      if \<not> presentFlag then (Inr (), g3) else
      let g4 = g3\<lparr>calls := calls g3 @ [Present]\<rparr> in
      (case present w of
         Some e \<Rightarrow> (Inl e, g4)
       | None \<Rightarrow>
      if \<not> frameIndex g4 < frameCount then (Inl PanicIndexOutOfRange, g4) else
      let g5 = g4\<lparr>fenceValues := (fenceValues g4)
                   (frameIndex g4 := fenceValues g4 (frameIndex g4) + 1)\<rparr>;
          g6 = g5\<lparr>calls := calls g5 @ [Signal (frameIndex g5) (fenceValues g5 (frameIndex g5))]\<rparr>
      in
      (case signal w of
         Some e \<Rightarrow> (Inl e, g6)
       | None \<Rightarrow>
      let nextIndex = (frameIndex g6 + 1) mod frameCount;
          expected = fenceValues g6 nextIndex;
          actual = completedValue w
      in
      (case (if actual < expected
             then let g7 = g6\<lparr>calls := calls g6 @ [SetEventOnCompletion nextIndex expected]\<rparr> in
                  (case setEventOnCompletion w of
                     Some e \<Rightarrow> (Inl e, g7)
                   | None \<Rightarrow>
                       let g8 = g7\<lparr>calls := calls g7 @ [WaitForSingleObject gpuWaitTimeout]\<rparr> in
                       (case snd (waitForSingleObject w) of
                          Some e \<Rightarrow> (Inl e, g8)
                        | None \<Rightarrow> (Inr (), g8)))
             else (Inr (), g6)) of
         (Inl e, g9) \<Rightarrow> (Inl e, g9)
       | (Inr u, g9) \<Rightarrow> reclaim nextIndex g9))))))"


text \<open>
  \<^verbatim>\<open>Graphics.SetVertices\<close>. \<open>undoVertex\<close> and \<open>undoIndex\<close> are the two deferred functions,
  which run on an error return when the buffer was created by this call.
\<close>

definition undoVertex :: "nat \<Rightarrow> Graphics \<Rightarrow> Graphics" where
  "undoVertex vidx g =
     (case arr (vertices g (frameIndex g)) ! vidx of
        Some h \<Rightarrow> g\<lparr>dev := Release h (dev g),
                    vertices := (vertices g)
                      (frameIndex g := setAt (vertices g (frameIndex g)) vidx None)\<rparr>
      | None \<Rightarrow> g)"

definition undoIndex :: "nat \<Rightarrow> Graphics \<Rightarrow> Graphics" where
  "undoIndex iidx g =
     (case arr (indices g (frameIndex g)) ! iidx of
        Some h \<Rightarrow> g\<lparr>dev := Release h (dev g),
                    indices := (indices g)
                      (frameIndex g := setAt (indices g (frameIndex g)) iidx None)\<rparr>
      | None \<Rightarrow> g)"

definition deferred :: "bool \<Rightarrow> nat \<Rightarrow> bool \<Rightarrow> nat \<Rightarrow> Graphics \<Rightarrow> Graphics" where
  "deferred newV vidx newI iidx g =
     (let g1 = (if newI then undoIndex iidx g else g)
      in if newV then undoVertex vidx g1 else g1)"

definition SetVertices ::
  "outcomes \<Rightarrow> 32 word list \<Rightarrow> 16 word list \<Rightarrow> Graphics \<Rightarrow> (failure + unit) \<times> Graphics" where
  "SetVertices w vs is g =
     (let f = frameIndex g in
      if \<not> f < frameCount then (Inl PanicIndexOutOfRange, g) else
      let vidx = len (vertices g f);
          g1 = g\<lparr>vertices := (vertices g)(f := growByOne (spareCap w) (vertices g f))\<rparr>
      in
      (case (case arr (vertices g1 f) ! vidx of
               Some vb \<Rightarrow> (Inr (vb, False), g1)
             | None \<Rightarrow>
                 (case createVertexBuffer w of
                    Some e \<Rightarrow> (Inl e, g1)
                  | None \<Rightarrow>
                      let (vb, d1) = create (dev g1)
                      in (Inr (vb, True),
                          g1\<lparr>dev := d1,
                             vertices := (vertices g1)(f := setAt (vertices g1 f) vidx (Some vb))\<rparr>))) of
         (Inl e, g2) \<Rightarrow> (Inl e, g2)
       | (Inr (vb, newV), g2) \<Rightarrow>
      let iidx = len (indices g2 f);
          g3 = g2\<lparr>indices := (indices g2)(f := growByOne (spareCap w) (indices g2 f))\<rparr>
      in
      (case (case arr (indices g3 f) ! iidx of
               Some ib \<Rightarrow> (Inr (ib, False), g3)
             | None \<Rightarrow>
                 (case createIndexBuffer w of
                    Some e \<Rightarrow> (Inl e, g3)
                  | None \<Rightarrow>
                      let (ib, d1) = create (dev g3)
                      in (Inr (ib, True),
                          g3\<lparr>dev := d1,
                             indices := (indices g3)(f := setAt (indices g3 f) iidx (Some ib))\<rparr>))) of
         (Inl e, g4) \<Rightarrow> (Inl e, deferred newV vidx False iidx g4)
       | (Inr (ib, newI), g4) \<Rightarrow>
      (case mapVertices w of
         Some e \<Rightarrow> (Inl e, deferred newV vidx newI iidx g4)
       | None \<Rightarrow>
      let g5 = g4\<lparr>dev := (dev g4)\<lparr>bufferContents := (bufferContents (dev g4))(vb \<mapsto> Float32s vs)\<rparr>\<rparr>
      in
      (case unmapVertices w of
         Some e \<Rightarrow> (Inl e, deferred newV vidx newI iidx g5)
       | None \<Rightarrow>
      (case mapIndices w of
         Some e \<Rightarrow> (Inl e, deferred newV vidx newI iidx g5)
       | None \<Rightarrow>
      let g6 = g5\<lparr>dev := (dev g5)\<lparr>bufferContents := (bufferContents (dev g5))(ib \<mapsto> Uint16s is)\<rparr>\<rparr>
      in
      (case unmapIndices w of
         Some e \<Rightarrow> (Inl e, deferred newV vidx newI iidx g6)
       | None \<Rightarrow> (Inr (), g6))))))))"

text \<open>\<^verbatim>\<open>Graphics.removeImage\<close>, which is all \<^verbatim>\<open>Image.Dispose\<close> does.\<close>

definition removeImage :: "outcomes \<Rightarrow> nat \<Rightarrow> Graphics \<Rightarrow> (failure + unit) \<times> Graphics" where
  "removeImage w a g =
     (case imageHeap g a of
        None \<Rightarrow> (Inl PanicNilPointer, g)
      | Some i \<Rightarrow>
          let g1 = g\<lparr>images := (images g)(img_id i := None)\<rparr> in
          if \<not> frameIndex g1 < frameCount then (Inl PanicIndexOutOfRange, g1) else
          let g2 = g1\<lparr>disposedImages := (disposedImages g1)
                       (frameIndex g1 := append1 (spareCap w) None
                                           (disposedImages g1 (frameIndex g1)) (Some a))\<rparr>
          in (Inr (), if img_screen i then g2\<lparr>screenImage := None\<rparr> else g2))"

text \<open>\<^verbatim>\<open>Image.internalSize\<close> and \<^verbatim>\<open>Image.setAsRenderTarget\<close>.\<close>

definition internalSize :: "outcomes \<Rightarrow> Image \<Rightarrow> int \<times> int" where
  "internalSize w i =
     (if img_screen i then (img_width i, img_height i)
      else (InternalImageSize w (img_width i), InternalImageSize w (img_height i)))"

definition setAsRenderTarget :: "outcomes \<Rightarrow> nat option \<Rightarrow> Graphics \<Rightarrow> (failure + unit) \<times> Graphics" where
  "setAsRenderTarget w a g =
     (case transiteState a D3D12_RESOURCE_STATE_RENDER_TARGET g of
        (Inl e, g1) \<Rightarrow> (Inl e, g1)
      | (Inr u, g1) \<Rightarrow>
     (case a of
        None \<Rightarrow> (Inl PanicNilPointer, g1)
      | Some a \<Rightarrow>
     (case imageHeap g1 a of
        None \<Rightarrow> (Inl PanicNilPointer, g1)
      | Some i \<Rightarrow>
     let i1 = i\<lparr>img_needsSync := True\<rparr>;
         g2 = g1\<lparr>imageHeap := (imageHeap g1)(a \<mapsto> i1)\<rparr>
     in
     if img_screen i1
     then (case rtvDescriptorHeap g2 of
             None \<Rightarrow> (Inl PanicNilPointer, g2)
           | Some h \<Rightarrow>
               (Inr (), g2\<lparr>commandList := commandList g2 @ [OMSetRenderTargets (Some h) (frameIndex g2)]\<rparr>))
     else
     (case img_rtvDescriptorHeap i1 of
        Some h \<Rightarrow> (Inr (), g2\<lparr>commandList := commandList g2 @ [OMSetRenderTargets (Some h) 0]\<rparr>)
      | None \<Rightarrow>
          (case createRTVHeap w of
             Some e \<Rightarrow> (Inl e, g2)
           | None \<Rightarrow>
               let (h, d1) = create (dev g2);
                   d2 = d1\<lparr>heapSize := (heapSize d1)(h \<mapsto> 1)\<rparr>
               in (Inr (),
                   g2\<lparr>dev := d2,
                      imageHeap := (imageHeap g2)(a \<mapsto> i1\<lparr>img_rtvDescriptorHeap := Some h\<rparr>),
                      commandList := commandList g2 @ [OMSetRenderTargets (Some h) 0]\<rparr>))))))"

text \<open>
  \<^verbatim>\<open>Graphics.DrawTriangles\<close>. \<open>shaderGiven\<close> is \<^verbatim>\<open>shaderID != graphicsdriver.InvalidShaderID\<close>,
  \<open>src0\<close> is \<^verbatim>\<open>srcs[0]\<close>; the arguments the function does not read are left out.
\<close>

definition lastBuffer :: "(nat option) slice \<Rightarrow> failure + nat" where
  "lastBuffer s =
     (if len s = 0 then Inl PanicIndexOutOfRange
      else (case arr s ! (len s - 1) of
              None \<Rightarrow> Inl PanicNilPointer
            | Some b \<Rightarrow> Inr b))"

definition DrawTriangles ::
  "outcomes \<Rightarrow> int \<Rightarrow> int \<Rightarrow> bool \<Rightarrow> int \<Rightarrow> int \<Rightarrow> int \<Rightarrow> Graphics \<Rightarrow> (failure + unit) \<times> Graphics" where
  "DrawTriangles w dstID src0 shaderGiven indexLen indexOffset mode g =
     (let dst = images g dstID in
      if shaderGiven then (Inl (Error ''directx: shader is not implemented yet''), g) else
      (case setAsRenderTarget w dst g of
         (Inl e, g1) \<Rightarrow> (Inl e, g1)
       | (Inr u, g1) \<Rightarrow>
      (case dst of
         None \<Rightarrow> (Inl PanicNilPointer, g1)
       | Some da \<Rightarrow>
      (case imageHeap g1 da of
         None \<Rightarrow> (Inl PanicNilPointer, g1)
       | Some di \<Rightarrow>
      let key = \<lparr>compositeMode = mode, screen = img_screen di\<rparr>;
          (wd, ht) = internalSize w di;
          src = images g1 src0
      in
      (case transiteState src D3D12_RESOURCE_STATE_PIXEL_SHADER_RESOURCE g1 of
         (Inl e, g2) \<Rightarrow> (Inl e, g2)
       | (Inr u, g2) \<Rightarrow>
      (case src of
         None \<Rightarrow> (Inl PanicNilPointer, g2)
       | Some sa \<Rightarrow>
      (case imageHeap g2 sa of
         None \<Rightarrow> (Inl PanicNilPointer, g2)
       | Some si \<Rightarrow>
      (case resource g2 si of
         Inl e \<Rightarrow> (Inl e, g2)
       | Inr r \<Rightarrow>
      (case useGraphicsPipelineState w (dev g2) (commandList g2) (pipeline g2) (frameIndex g2)
              key wd ht r of
         (Inl e, d1, cl1, p1) \<Rightarrow> (Inl e, g2\<lparr>dev := d1, commandList := cl1, pipeline := p1\<rparr>)
       | (Inr u, d1, cl1, p1) \<Rightarrow>
      let g3 = g2\<lparr>dev := d1, pipeline := p1,
                  commandList := cl1 @ [RSSetViewports wd ht, RSSetScissorRects,
                                        IASetPrimitiveTopology]\<rparr>
      in
      (case lastBuffer (vertices g3 (frameIndex g3)) of
         Inl e \<Rightarrow> (Inl e, g3)
       | Inr vb \<Rightarrow>
      let g4 = g3\<lparr>commandList := commandList g3 @ [IASetVertexBuffers vb]\<rparr> in
      (case lastBuffer (indices g4 (frameIndex g4)) of
         Inl e \<Rightarrow> (Inl e, g4)
       | Inr ib \<Rightarrow>
          (Inr (),
           g4\<lparr>commandList := commandList g4 @
                  [IASetIndexBuffer ib,
                   DrawIndexedInstanced (word_of_int indexLen) (word_of_int indexOffset)]\<rparr>))))))))))))"


section \<open>Concrete states\<close>

text \<open>
  A world in which every call succeeds, the GPU has completed nothing yet, and every
  composite mode is source-over (\<open>One\<close>, \<open>OneMinusSrcAlpha\<close>).
\<close>

definition allSucceed :: outcomes where
  "allSucceed =
     \<lparr>spareCap = 0,
      Operations = (\<lambda>m. Inr (One, OneMinusSrcAlpha)),
      serializeRootSignature = None, createRootSignature = None,
      compileVS = None, compilePS = None, createGraphicsPipelineState = None,
      createConstantBuffer = None, mapConstantBuffer = None, unmapConstantBuffer = None,
      createShaderHeap = None, createSamplerHeap = None,
      descriptorHandleIncrementSize = 32,
      createRTVHeap = None, createVertexBuffer = None, createIndexBuffer = None,
      mapVertices = None, unmapVertices = None, mapIndices = None, unmapIndices = None,
      currentBackBufferIndex = 0,
      allocatorReset = None, commandListReset = None, commandListClose = None,
      present = None, signal = None, completedValue = 0,
      setEventOnCompletion = None, waitForSingleObject = (0, None),
      InternalImageSize = (\<lambda>n. n)\<rparr>"

text \<open>A device on which ten objects exist already (handles 0 to 9).\<close>

definition dev0 :: device where
  "dev0 = \<lparr>nextHandle = 10, released = [], heapSize = Map.empty, descriptors = Map.empty,
           pipelineDescs = Map.empty, bufferContents = Map.empty\<rparr>"

text \<open>The zero value of \<^verbatim>\<open>pipelineStates\<close>, and the pipeline states and device after \<^verbatim>\<open>initialize\<close>.\<close>

definition pipelineZero :: pipelineStates where
  "pipelineZero =
     \<lparr>cache = Map.empty, shaderDescriptorHeap = None, shaderDescriptorSize = 0,
      samplerDescriptorHeap = None, lastFrameIndex = 0, constantBuffers = (\<lambda>i. nilSlice)\<rparr>"

definition dev1 :: device where
  "dev1 = fst (snd (initialize allSucceed dev0 pipelineZero))"

definition pipeline1 :: pipelineStates where
  "pipeline1 = snd (snd (initialize allSucceed dev0 pipelineZero))"

definition sourceOver :: pipelineStatesKey where
  "sourceOver = \<lparr>compositeMode = 0, screen = False\<rparr>"

text \<open>
  The graphics state after \<^verbatim>\<open>Initialize\<close>, and the state after \<^verbatim>\<open>NewScreenFramebufferImage\<close>
  and \<^verbatim>\<open>NewImage\<close> have each run once: the swap chain is handle 1, its two back buffers are
  handles 2 and 3, the screen image (ID 1) is at address 0 and an offscreen image (ID 2,
  texture handle 4) at address 1.
\<close>

definition graphicsInit :: Graphics where
  "graphicsInit =
     \<lparr>dev = dev1, calls = [], rtvDescriptorHeap = Some 0,
      renderTargets = (\<lambda>i. None), fenceValues = (\<lambda>i. 0), commandList = [],
      vertices = (\<lambda>i. nilSlice), indices = (\<lambda>i. nilSlice),
      swapChain = None, frameIndex = 0, images = Map.empty, screenImage = None,
      nextImageID = 0, disposedImages = (\<lambda>i. nilSlice), pipeline = pipeline1,
      imageHeap = Map.empty\<rparr>"

definition screenImage0 :: Image where
  "screenImage0 =
     \<lparr>img_id = 1, img_width = 640, img_height = 480, img_screen = True,
      img_state = D3D12_RESOURCE_STATE_PRESENT, img_texture = None,
      img_stagingBuffer = None, img_rtvDescriptorHeap = None, img_needsSync = False\<rparr>"

definition offscreenImage0 :: Image where
  "offscreenImage0 =
     \<lparr>img_id = 2, img_width = 64, img_height = 64, img_screen = False,
      img_state = D3D12_RESOURCE_STATE_PIXEL_SHADER_RESOURCE, img_texture = Some 4,
      img_stagingBuffer = None, img_rtvDescriptorHeap = None, img_needsSync = False\<rparr>"

definition graphicsReady :: Graphics where
  "graphicsReady =
     graphicsInit\<lparr>swapChain := Some 1,
                  renderTargets := (\<lambda>i. if i = 0 then Some 2 else if i = 1 then Some 3 else None),
                  images := [1 \<mapsto> 0, 2 \<mapsto> 1], screenImage := Some 0, nextImageID := 2,
                  imageHeap := [0 \<mapsto> screenImage0, 1 \<mapsto> offscreenImage0]\<rparr>"


text \<open>
  \<open>binds w f n\<close>: \<open>n\<close> consecutive calls of \<^verbatim>\<open>useGraphicsPipelineState\<close> for frame \<open>f\<close>, with
  the source-over key and the texture handle 4 as the source, stopping at the first failure.
\<close>

fun binds ::
  "outcomes \<Rightarrow> nat \<Rightarrow> nat \<Rightarrow> device \<times> command list \<times> pipelineStates
   \<Rightarrow> (failure + unit) \<times> device \<times> command list \<times> pipelineStates" where
  "binds w f 0 s = (Inr (), s)"
| "binds w f (Suc n) (d, cl, p) =
     (case useGraphicsPipelineState w d cl p f sourceOver 640 480 (Some 4) of
        (Inl e, s1) \<Rightarrow> (Inl e, s1)
      | (Inr u, s1) \<Rightarrow> binds w f n s1)"


section \<open>Notions the properties are stated with\<close>

text \<open>
  \<open>later p p'\<close>: the pipeline states \<open>p'\<close> are reached from \<open>p\<close> by calls, in any worlds and
  with any arguments, of the three functions that work on them.
\<close>

inductive later :: "pipelineStates \<Rightarrow> pipelineStates \<Rightarrow> bool" where
  later_refl: "later p p"
| later_build:
    "later p p1 \<Longrightarrow> graphicsPipelineState w d p1 k = (r, d2, p2) \<Longrightarrow> later p p2"
| later_use:
    "later p p1 \<Longrightarrow> useGraphicsPipelineState w d cl p1 f k sw sh t = (r, d2, cl2, p2)
     \<Longrightarrow> later p p2"
| later_initialize:
    "later p p1 \<Longrightarrow> initialize w d p1 = (r, d2, p2) \<Longrightarrow> later p p2"

text \<open>
  The error of the first of the five fallible steps of a build that fails, in the order
  of the source; and whether the four steps before the blend factors are computed succeed.
\<close>

definition buildError :: "outcomes \<Rightarrow> failure option" where
  "buildError w =
     (case serializeRootSignature w of Some e \<Rightarrow> Some e | None \<Rightarrow>
     (case createRootSignature w of Some e \<Rightarrow> Some e | None \<Rightarrow>
     (case compileVS w of Some e \<Rightarrow> Some e | None \<Rightarrow>
     (case compilePS w of Some e \<Rightarrow> Some e | None \<Rightarrow>
        createGraphicsPipelineState w))))"


text \<open>
  The state that the last transition barrier among \<open>cs\<close> naming the resource \<open>r\<close> leaves
  it in, if there is one.
\<close>

fun lastTransition :: "nat option \<Rightarrow> command list \<Rightarrow> D3D12_RESOURCE_STATES option" where
  "lastTransition r [] = None"
| "lastTransition r (c # cs) =
     (case lastTransition r cs of
        Some s \<Rightarrow> Some s
      | None \<Rightarrow>
          (case c of
             ResourceBarrier r1 before after \<Rightarrow> if r1 = r then Some after else None
           | _ \<Rightarrow> None))"

text \<open>More keys, worlds and states for the examples.\<close>

definition screenKey :: pipelineStatesKey where
  "screenKey = \<lparr>compositeMode = 0, screen = True\<rparr>"

definition serializationFails :: outcomes where
  "serializationFails = allSucceed\<lparr>serializeRootSignature := Some (DeviceError 1)\<rparr>"


text \<open>
  A frame, step by step, from \<open>graphicsReady\<close>: \<^verbatim>\<open>Begin\<close> on back buffer 0, \<^verbatim>\<open>SetVertices\<close>,
  \<^verbatim>\<open>DrawTriangles\<close> from the offscreen image (ID 2) to the screen (ID 1), \<^verbatim>\<open>Dispose\<close> of
  the offscreen image, \<^verbatim>\<open>End(true)\<close>; then \<^verbatim>\<open>Begin\<close> of the next frame on back buffer 1.
  In the world \<open>timedOut\<close> the GPU has completed nothing of the first frame (its fence
  still reads 0) and the wait on the fence event returns \<^verbatim>\<open>WAIT_TIMEOUT\<close>.
\<close>

definition recording :: Graphics where
  "recording = snd (Begin allSucceed graphicsReady)"

definition withVertices :: Graphics where
  "withVertices = snd (SetVertices allSucceed [1, 2, 3] [0, 1, 2] recording)"

definition drawn :: Graphics where
  "drawn = snd (DrawTriangles allSucceed 1 2 False 3 0 0 withVertices)"

definition drawnAndDisposed :: Graphics where
  "drawnAndDisposed = snd (removeImage allSucceed 1 drawn)"

definition submitted :: Graphics where
  "submitted = snd (End allSucceed True drawnAndDisposed)"

definition backBufferOne :: outcomes where
  "backBufferOne = allSucceed\<lparr>currentBackBufferIndex := 1\<rparr>"

definition nextFrame :: Graphics where
  "nextFrame = snd (Begin backBufferOne submitted)"

definition timedOut :: outcomes where
  "timedOut = allSucceed\<lparr>currentBackBufferIndex := 1, completedValue := 0,
                          waitForSingleObject := (0x102, None)\<rparr>"

section \<open>Properties\<close>

subsection \<open>Evaluating the concrete states\<close>

lemma initialize_allSucceed:
  "initialize allSucceed dev0 pipelineZero =
     (Inr (),
      \<lparr>nextHandle = 12, released = [],
       heapSize = [10 \<mapsto> frameCount * numDescriptorsPerFrame * numConstantBufferAndSourceTextures,
                   11 \<mapsto> 1],
       descriptors = Map.empty, pipelineDescs = Map.empty, bufferContents = Map.empty\<rparr>,
      \<lparr>cache = Map.empty, shaderDescriptorHeap = Some 10, shaderDescriptorSize = 32,
       samplerDescriptorHeap = Some 11, lastFrameIndex = 0, constantBuffers = (\<lambda>i. nilSlice)\<rparr>)"
  by (simp add: initialize_def allSucceed_def dev0_def pipelineZero_def create_def)

lemma dev1_eq:
  "dev1 = \<lparr>nextHandle = 12, released = [],
       heapSize = [10 \<mapsto> frameCount * numDescriptorsPerFrame * numConstantBufferAndSourceTextures,
                   11 \<mapsto> 1],
       descriptors = Map.empty, pipelineDescs = Map.empty, bufferContents = Map.empty\<rparr>"
  by (simp add: dev1_def initialize_allSucceed)

lemma pipeline1_eq:
  "pipeline1 = \<lparr>cache = Map.empty, shaderDescriptorHeap = Some 10, shaderDescriptorSize = 32,
       samplerDescriptorHeap = Some 11, lastFrameIndex = 0, constantBuffers = (\<lambda>i. nilSlice)\<rparr>"
  by (simp add: pipeline1_def initialize_allSucceed)

lemma build_sourceOver:
  "\<exists>psv d p. graphicsPipelineState allSucceed dev1 pipeline1 sourceOver = (Inr psv, d, p)"
  by (simp add: graphicsPipelineState_def pipeline1_eq dev1_eq allSucceed_def sourceOver_def
        keyOf_def create_def Release_def operationToBlend_def blendFactors_def Let_def)

subsection \<open>The pipeline-state cache\<close>

lemma graphicsPipelineState_built:
  assumes "graphicsPipelineState w d p key = (Inr psv, d1, p1)"
    and "cache p (keyOf key) = None"
  shows "\<exists>s desc srcOp dstOp sb db.
           pstate psv = Some s \<and> pipelineDescs d1 s = Some desc \<and>
           Operations w (compositeMode key) = Inr (srcOp, dstOp) \<and>
           operationToBlend srcOp = Inr sb \<and> operationToBlend dstOp = Inr db \<and>
           SrcBlend (RenderTarget0 desc) = sb \<and> SrcBlendAlpha (RenderTarget0 desc) = sb \<and>
           DestBlend (RenderTarget0 desc) = db \<and> DestBlendAlpha (RenderTarget0 desc) = db \<and>
           BlendOp (RenderTarget0 desc) = D3D12_BLEND_OP_ADD \<and>
           BlendOpAlpha (RenderTarget0 desc) = D3D12_BLEND_OP_ADD"
  using assms
  by (auto simp: graphicsPipelineState_def blendFactors_def Let_def create_def Release_def
           split: option.splits sum.splits prod.splits)

text \<open>
  C3, as the claim states it: each of eight blend operations is mapped to a blend factor
  without a panic. \<^verbatim>\<open>operationToBlend\<close> names seven operations; on a value of the integer
  type that is none of the seven, such as an eighth one, it panics.
\<close>

theorem operationToBlend_eighth_counterexample:
  "operationToBlend (OtherOperation 7) = Inl PanicInvalidOperation"
  by (simp add: operationToBlend_def)

text \<open>
  C3, amended: each of the seven operations \<open>Zero\<close>, \<open>One\<close>, \<open>SrcAlpha\<close>, \<open>DstAlpha\<close>,
  \<open>OneMinusSrcAlpha\<close>, \<open>OneMinusDstAlpha\<close>, \<open>DstColor\<close> is mapped to the corresponding
  D3D12 blend factor, every other value of the type panics, and the pipeline state built
  for a key is created from a description whose colour and alpha source factors are both
  the factor of the key's source operation, whose colour and alpha destination factors
  are both the factor of the key's destination operation, and whose two blend operations
  are the addition.
\<close>

theorem operationToBlend_table:
  "operationToBlend Zero = Inr D3D12_BLEND_ZERO \<and>
   operationToBlend One = Inr D3D12_BLEND_ONE \<and>
   operationToBlend SrcAlpha = Inr D3D12_BLEND_SRC_ALPHA \<and>
   operationToBlend DstAlpha = Inr D3D12_BLEND_DEST_ALPHA \<and>
   operationToBlend OneMinusSrcAlpha = Inr D3D12_BLEND_INV_SRC_ALPHA \<and>
   operationToBlend OneMinusDstAlpha = Inr D3D12_BLEND_INV_DEST_ALPHA \<and>
   operationToBlend DstColor = Inr D3D12_BLEND_DEST_COLOR \<and>
   (\<forall>n. operationToBlend (OtherOperation n) = Inl PanicInvalidOperation) \<and>
   (\<forall>w d p key psv d1 p1.
      graphicsPipelineState w d p key = (Inr psv, d1, p1) \<and> cache p (keyOf key) = None \<longrightarrow>
      (\<exists>s desc srcOp dstOp sb db.
           pstate psv = Some s \<and> pipelineDescs d1 s = Some desc \<and>
           Operations w (compositeMode key) = Inr (srcOp, dstOp) \<and>
           operationToBlend srcOp = Inr sb \<and> operationToBlend dstOp = Inr db \<and>
           SrcBlend (RenderTarget0 desc) = sb \<and> SrcBlendAlpha (RenderTarget0 desc) = sb \<and>
           DestBlend (RenderTarget0 desc) = db \<and> DestBlendAlpha (RenderTarget0 desc) = db \<and>
           BlendOp (RenderTarget0 desc) = D3D12_BLEND_OP_ADD \<and>
           BlendOpAlpha (RenderTarget0 desc) = D3D12_BLEND_OP_ADD))"
  using graphicsPipelineState_built by (simp add: operationToBlend_def) blast

theorem operationToBlend_table_witness:
  "\<exists>psv d1 p1 s desc.
     graphicsPipelineState allSucceed dev1 pipeline1 sourceOver = (Inr psv, d1, p1) \<and>
     cache pipeline1 (keyOf sourceOver) = None \<and>
     pstate psv = Some s \<and> pipelineDescs d1 s = Some desc \<and>
     SrcBlend (RenderTarget0 desc) = D3D12_BLEND_ONE \<and>
     SrcBlendAlpha (RenderTarget0 desc) = D3D12_BLEND_ONE \<and>
     DestBlend (RenderTarget0 desc) = D3D12_BLEND_INV_SRC_ALPHA \<and>
     DestBlendAlpha (RenderTarget0 desc) = D3D12_BLEND_INV_SRC_ALPHA \<and>
     BlendOp (RenderTarget0 desc) = D3D12_BLEND_OP_ADD \<and>
     BlendOpAlpha (RenderTarget0 desc) = D3D12_BLEND_OP_ADD"
proof -
  obtain psv d1 p1 where
    run: "graphicsPipelineState allSucceed dev1 pipeline1 sourceOver = (Inr psv, d1, p1)"
    using build_sourceOver by blast
  have miss: "cache pipeline1 (keyOf sourceOver) = None"
    by (simp add: pipeline1_eq)
  have ops: "Operations allSucceed (compositeMode sourceOver) = Inr (One, OneMinusSrcAlpha)"
    by (simp add: allSucceed_def)
  from operationToBlend_table run miss obtain s desc srcOp dstOp sb db where
    built: "pstate psv = Some s" "pipelineDescs d1 s = Some desc"
      "Operations allSucceed (compositeMode sourceOver) = Inr (srcOp, dstOp)"
      "operationToBlend srcOp = Inr sb" "operationToBlend dstOp = Inr db"
      "SrcBlend (RenderTarget0 desc) = sb" "SrcBlendAlpha (RenderTarget0 desc) = sb"
      "DestBlend (RenderTarget0 desc) = db" "DestBlendAlpha (RenderTarget0 desc) = db"
      "BlendOp (RenderTarget0 desc) = D3D12_BLEND_OP_ADD"
      "BlendOpAlpha (RenderTarget0 desc) = D3D12_BLEND_OP_ADD"
    by blast
  from built(3) ops have "srcOp = One" "dstOp = OneMinusSrcAlpha" by simp_all
  with built(4,5) have "sb = D3D12_BLEND_ONE" "db = D3D12_BLEND_INV_SRC_ALPHA"
    by (simp_all add: operationToBlend_def)
  with built(6-9) have
    "SrcBlend (RenderTarget0 desc) = D3D12_BLEND_ONE"
    "SrcBlendAlpha (RenderTarget0 desc) = D3D12_BLEND_ONE"
    "DestBlend (RenderTarget0 desc) = D3D12_BLEND_INV_SRC_ALPHA"
    "DestBlendAlpha (RenderTarget0 desc) = D3D12_BLEND_INV_SRC_ALPHA"
    by simp_all
  with run miss built(1,2,10,11) show ?thesis
    by (intro exI conjI)
qed

lemma graphicsPipelineState_hit:
  "cache p (keyOf key) = Some s \<Longrightarrow> graphicsPipelineState w d p key = (Inr s, d, p)"
  by (simp add: graphicsPipelineState_def)

lemma graphicsPipelineState_cache:
  assumes "graphicsPipelineState w d p key = (r, d1, p1)"
  shows "cache p1 = cache p \<or> (\<exists>psv. cache p (keyOf key) = None \<and> r = Inr psv \<and> cache p1 = (cache p)(keyOf key \<mapsto> psv))"
  using assms
  by (auto simp: graphicsPipelineState_def Let_def create_def
           split: option.splits sum.splits prod.splits)

lemma graphicsPipelineState_cache_mono:
  assumes "graphicsPipelineState w d p key = (r, d1, p1)"
  shows "cache p \<subseteq>\<^sub>m cache p1"
  using graphicsPipelineState_cache [OF assms] by (auto simp: map_le_def)

lemma graphicsPipelineState_stores:
  assumes "graphicsPipelineState w d p key = (Inr psv, d1, p1)"
  shows "cache p1 (keyOf key) = Some psv"
  using assms
  by (auto simp: graphicsPipelineState_def Let_def create_def
           split: option.splits sum.splits prod.splits)

lemma useGraphicsPipelineState_cache:
  assumes "useGraphicsPipelineState w d cl p f k sw sh t = (r, d1, cl1, p1)"
  shows "\<exists>r0 d0 p0. graphicsPipelineState w d p k = (r0, d0, p0) \<and> cache p1 = cache p0"
  using assms
  by (auto simp: useGraphicsPipelineState_def Let_def create_def
           split: option.splits sum.splits prod.splits if_splits)

lemma initialize_cache:
  assumes "initialize w d p = (r, d1, p1)"
  shows "cache p1 = cache p"
  using assms
  by (auto simp: initialize_def Let_def create_def split: option.splits prod.splits)

lemma later_cache_mono: "later p p1 \<Longrightarrow> cache p \<subseteq>\<^sub>m cache p1"
proof (induction rule: later.induct)
  case (later_refl p)
  show ?case by simp
next
  case (later_build p p1 w d k r d2 p2)
  then show ?case using graphicsPipelineState_cache_mono map_le_trans by blast
next
  case (later_use p p1 w d cl f k sw sh t r d2 cl2 p2)
  from useGraphicsPipelineState_cache [OF later_use(2)] obtain r0 d0 p0 where
    "graphicsPipelineState w d p1 k = (r0, d0, p0)" "cache p2 = cache p0" by blast
  then have "cache p1 \<subseteq>\<^sub>m cache p2" using graphicsPipelineState_cache_mono by metis
  with later_use(3) show ?case using map_le_trans by blast
next
  case (later_initialize p p1 w d r d2 p2)
  then show ?case using initialize_cache by metis
qed

text \<open>
  C5: once a build for a key has succeeded, every later call for the same key, whatever
  calls were made on the pipeline states in between and whatever the device would answer
  now, returns the same entry and leaves the device and the pipeline states as they are:
  nothing is created or compiled, and no entry is ever removed.
\<close>

theorem graphicsPipelineState_idempotent:
  assumes "graphicsPipelineState w d p key = (Inr psv, d1, p1)" and "later p1 p2"
  shows "graphicsPipelineState w2 d2 p2 key = (Inr psv, d2, p2)"
proof -
  have "cache p1 (keyOf key) = Some psv"
    using assms(1) by (rule graphicsPipelineState_stores)
  moreover have "cache p1 \<subseteq>\<^sub>m cache p2"
    using assms(2) by (rule later_cache_mono)
  ultimately have "cache p2 (keyOf key) = Some psv"
    by (metis domI map_le_def)
  then show ?thesis by (rule graphicsPipelineState_hit)
qed


theorem graphicsPipelineState_idempotent_witness:
  "\<exists>psv d1 p1 r d2 p2.
     graphicsPipelineState allSucceed dev1 pipeline1 sourceOver = (Inr psv, d1, p1) \<and>
     graphicsPipelineState allSucceed d1 p1 screenKey = (r, d2, p2) \<and> later p1 p2 \<and>
     graphicsPipelineState serializationFails d2 p2 sourceOver = (Inr psv, d2, p2)"
proof -
  obtain psv d1 p1 where
    run: "graphicsPipelineState allSucceed dev1 pipeline1 sourceOver = (Inr psv, d1, p1)"
    using build_sourceOver by blast
  obtain r d2 p2 where
    next_run: "graphicsPipelineState allSucceed d1 p1 screenKey = (r, d2, p2)"
    by (cases "graphicsPipelineState allSucceed d1 p1 screenKey") blast
  have reach: "later p1 p2"
    using later_build [OF later_refl next_run] .
  from graphicsPipelineState_idempotent [OF run reach]
  have "graphicsPipelineState serializationFails d2 p2 sourceOver = (Inr psv, d2, p2)" .
  with run next_run reach show ?thesis by blast
qed



subsection \<open>The descriptor table\<close>


lemma build_succeeds:
  assumes "buildError w = None" and "blendFactors w key = Inr bf"
  shows "\<exists>psv d0 p0. graphicsPipelineState w d p key = (Inr psv, d0, p0)"
  using assms
  by (auto simp: graphicsPipelineState_def buildError_def Let_def create_def
           split: option.splits sum.splits prod.splits)

lemma graphicsPipelineState_frame:
  assumes "graphicsPipelineState w d p key = (r, d0, p0)"
  shows "constantBuffers p0 = constantBuffers p" "lastFrameIndex p0 = lastFrameIndex p"
    "shaderDescriptorHeap p0 = shaderDescriptorHeap p"
    "samplerDescriptorHeap p0 = samplerDescriptorHeap p"
    "descriptors d0 = descriptors d" "heapSize d0 = heapSize d"
    "bufferContents d0 = bufferContents d"
  using assms
  by (auto simp: graphicsPipelineState_def Let_def create_def Release_def
           split: option.splits sum.splits prod.splits)

lemma growByOne_full:
  "length (arr s) = len s \<Longrightarrow> growByOne 0 s = \<lparr>arr = arr s @ [None], len = len s + 1\<rparr>"
  by (simp add: growByOne_def cap_def append1_def)

lemma useGraphicsPipelineState_step:
  assumes build: "graphicsPipelineState w d p key = (Inr psv, d0, p0)"
    and world: "spareCap w = 0" "createConstantBuffer w = None" "mapConstantBuffer w = None"
      "unmapConstantBuffer w = None"
    and heaps: "shaderDescriptorHeap p = Some h" "samplerDescriptorHeap p = Some sh"
    and slot: "f < frameCount" "len (constantBuffers p f) = n" "length (arr (constantBuffers p f)) = n"
      "lastFrameIndex p = f \<or> n = 0" "n < numDescriptorsPerFrame * 2"
  shows "\<exists>d1 cl1 p1. useGraphicsPipelineState w d cl p f key sw sh' t = (Inr (), d1, cl1, p1) \<and>
           descriptors d1 = (descriptors d)
              ((h, descriptorOffset f n) \<mapsto> ConstantBufferView (Some (nextHandle d0)),
               (h, descriptorOffset f n + 1) \<mapsto> ShaderResourceView t) \<and>
           heapSize d1 = heapSize d \<and>
           shaderDescriptorHeap p1 = Some h \<and> samplerDescriptorHeap p1 = Some sh \<and>
           len (constantBuffers p1 f) = n + 1 \<and> length (arr (constantBuffers p1 f)) = n + 1 \<and>
           lastFrameIndex p1 = f \<and> (\<forall>g. g \<noteq> f \<longrightarrow> constantBuffers p1 g = constantBuffers p g)"
proof -
  note fr = graphicsPipelineState_frame [OF build]
  have grown: "growByOne 0 (constantBuffers p f) =
      \<lparr>arr = arr (constantBuffers p f) @ [None], len = n + 1\<rparr>"
    using growByOne_full [of "constantBuffers p f"] slot(2,3) by simp
  have nth: "(arr (constantBuffers p f) @ [None]) ! n = None"
    using slot(3) by (metis nth_append_length)
  have len_upd: "length ((arr (constantBuffers p f) @ [None])[n := Some x]) = n + 1" for x
    using slot(3) by simp
  show ?thesis
  proof (cases "lastFrameIndex p = f")
    case True
    show ?thesis
      unfolding useGraphicsPipelineState_def build
      using True world heaps slot(1,2,3,5) fr grown nth len_upd
      by (simp add: Let_def create_def setAt_def split: prod.splits)
  next
    case False
    then have "n = 0" using slot(4) by simp
    then have trunc: "reslice (constantBuffers p f) 0 = constantBuffers p f"
      using slot(2) by (simp add: reslice_def)
    show ?thesis
      unfolding useGraphicsPipelineState_def build
      using False world heaps slot(1,2,3,5) fr grown trunc nth len_upd
      by (simp add: Let_def create_def setAt_def split: prod.splits)
  qed
qed


lemma descriptorOffset_distinct:
  "j \<noteq> n \<Longrightarrow> descriptorOffset f j \<noteq> descriptorOffset f n"
  "descriptorOffset f j + 1 \<noteq> descriptorOffset f n"
  "descriptorOffset f j \<noteq> descriptorOffset f n + 1"
  "j \<noteq> n \<Longrightarrow> descriptorOffset f j + 1 \<noteq> descriptorOffset f n + 1"
  by (simp_all add: descriptorOffset_def numConstantBufferAndSourceTextures_def ShaderImageNum_def)
     presburger+

lemma allSucceed_builds:
  "\<exists>psv d0 p0. graphicsPipelineState allSucceed d p sourceOver = (Inr psv, d0, p0)"
proof -
  have "buildError allSucceed = None"
    by (simp add: buildError_def allSucceed_def)
  moreover have "blendFactors allSucceed sourceOver = Inr (D3D12_BLEND_ONE, D3D12_BLEND_INV_SRC_ALPHA)"
    by (simp add: blendFactors_def allSucceed_def operationToBlend_def)
  ultimately show ?thesis by (rule build_succeeds)
qed

lemma binds_allSucceed:
  assumes "shaderDescriptorHeap p = Some h" "samplerDescriptorHeap p = Some sh"
    and "f < frameCount"
    and "len (constantBuffers p f) = n" "length (arr (constantBuffers p f)) = n"
    and "lastFrameIndex p = f \<or> n = 0"
    and "n + k \<le> numDescriptorsPerFrame * 2"
    and "\<forall>j<n. descriptors d (h, descriptorOffset f j + 1) = Some (ShaderResourceView (Some 4)) \<and>
               (\<exists>b. descriptors d (h, descriptorOffset f j) = Some (ConstantBufferView b))"
  shows "\<exists>d1 cl1 p1. binds allSucceed f k (d, cl, p) = (Inr (), d1, cl1, p1) \<and>
           shaderDescriptorHeap p1 = Some h \<and> samplerDescriptorHeap p1 = Some sh \<and>
           len (constantBuffers p1 f) = n + k \<and> length (arr (constantBuffers p1 f)) = n + k \<and>
           (lastFrameIndex p1 = f \<or> n + k = 0) \<and> heapSize d1 = heapSize d \<and>
           (\<forall>g. g \<noteq> f \<longrightarrow> constantBuffers p1 g = constantBuffers p g) \<and>
           (\<forall>j<n + k. descriptors d1 (h, descriptorOffset f j + 1) = Some (ShaderResourceView (Some 4)) \<and>
               (\<exists>b. descriptors d1 (h, descriptorOffset f j) = Some (ConstantBufferView b)))"
  using assms
proof (induction k arbitrary: d cl p n)
  case 0
  then show ?case by simp
next
  case (Suc k)
  obtain psv d0 p0 where
    build: "graphicsPipelineState allSucceed d p sourceOver = (Inr psv, d0, p0)"
    using allSucceed_builds by blast
  have world: "spareCap allSucceed = 0" "createConstantBuffer allSucceed = None"
    "mapConstantBuffer allSucceed = None" "unmapConstantBuffer allSucceed = None"
    by (simp_all add: allSucceed_def)
  have room: "n < numDescriptorsPerFrame * 2" using Suc.prems(7) by simp
  from useGraphicsPipelineState_step [where cl = cl and sw = 640 and sh' = 480 and t = "Some 4",
      OF build world Suc.prems(1,2,3,4,5,6) room]
  obtain d1 cl1 p1 where
    step: "useGraphicsPipelineState allSucceed d cl p f sourceOver 640 480 (Some 4) = (Inr (), d1, cl1, p1)"
    and desc: "descriptors d1 = (descriptors d)
              ((h, descriptorOffset f n) \<mapsto> ConstantBufferView (Some (nextHandle d0)),
               (h, descriptorOffset f n + 1) \<mapsto> ShaderResourceView (Some 4))"
    and rest: "heapSize d1 = heapSize d" "shaderDescriptorHeap p1 = Some h"
      "samplerDescriptorHeap p1 = Some sh" "len (constantBuffers p1 f) = n + 1"
      "length (arr (constantBuffers p1 f)) = n + 1" "lastFrameIndex p1 = f"
      "\<forall>g. g \<noteq> f \<longrightarrow> constantBuffers p1 g = constantBuffers p g"
    by blast
  have inv: "\<forall>j<n + 1. descriptors d1 (h, descriptorOffset f j + 1) = Some (ShaderResourceView (Some 4)) \<and>
               (\<exists>b. descriptors d1 (h, descriptorOffset f j) = Some (ConstantBufferView b))"
  proof (intro allI impI)
    fix j assume "j < n + 1"
    show "descriptors d1 (h, descriptorOffset f j + 1) = Some (ShaderResourceView (Some 4)) \<and>
               (\<exists>b. descriptors d1 (h, descriptorOffset f j) = Some (ConstantBufferView b))"
    proof (cases "j = n")
      case True
      then show ?thesis using desc descriptorOffset_distinct(3) [where f = f and j = n and n = n] by simp
    next
      case False
      then have "j < n" using \<open>j < n + 1\<close> by simp
      then have old: "descriptors d (h, descriptorOffset f j + 1) = Some (ShaderResourceView (Some 4))"
        "\<exists>b. descriptors d (h, descriptorOffset f j) = Some (ConstantBufferView b)"
        using Suc.prems(8) by simp_all
      show ?thesis
        using old desc False descriptorOffset_distinct [where f = f and j = j and n = n] by simp
    qed
  qed
  have budget: "(n + 1) + k \<le> numDescriptorsPerFrame * 2" using Suc.prems(7) by simp
  have last: "lastFrameIndex p1 = f \<or> n + 1 = 0" using rest(6) by simp
  from Suc.IH [where cl = cl1, OF rest(2,3) Suc.prems(3) rest(4,5) last budget inv]
  obtain d2 cl2 p2 where
    run: "binds allSucceed f k (d1, cl1, p1) = (Inr (), d2, cl2, p2)"
    and fin: "shaderDescriptorHeap p2 = Some h" "samplerDescriptorHeap p2 = Some sh"
      "len (constantBuffers p2 f) = n + 1 + k" "length (arr (constantBuffers p2 f)) = n + 1 + k"
      "lastFrameIndex p2 = f \<or> n + 1 + k = 0" "heapSize d2 = heapSize d1"
      "\<forall>g. g \<noteq> f \<longrightarrow> constantBuffers p2 g = constantBuffers p1 g"
      "\<forall>j<n + 1 + k. descriptors d2 (h, descriptorOffset f j + 1) = Some (ShaderResourceView (Some 4)) \<and>
               (\<exists>b. descriptors d2 (h, descriptorOffset f j) = Some (ConstantBufferView b))"
    by (elim exE conjE) (rule that, assumption+)
  have total: "binds allSucceed f (Suc k) (d, cl, p) = (Inr (), d2, cl2, p2)"
    using step run by simp
  have count: "n + 1 + k = n + Suc k" by simp
  show ?case
    unfolding total
    using fin rest(1,7) unfolding count
    by (intro exI [of _ d2] exI [of _ cl2] exI [of _ p2] conjI) simp_all
qed


text \<open>
  C2 fails on the code. The heap holds \<open>frameCount * numDescriptorsPerFrame * 5 = 2560\<close>
  descriptors, five for each draw, but the region of draw \<open>idx\<close> of frame \<open>frameIndex\<close>
  starts at \<open>frameIndex * numDescriptorsPerFrame + 5 * idx\<close>, and a frame may hold 512
  draws. After 52 draws in frame 0, the texture view of draw 51 is descriptor 256; the
  first draw of frame 1 writes its constant-buffer view there. After 462 draws in frame 1
  the last one has written the descriptors 2561 and 2562 of the 2560, and no call failed.
\<close>

theorem descriptor_regions_overlap:
  "\<exists>d cl p d2 cl2 p2.
     binds allSucceed 0 52 (dev1, [], pipeline1) = (Inr (), d, cl, p) \<and>
     descriptors d (10, descriptorOffset 0 51 + 1) = Some (ShaderResourceView (Some 4)) \<and>
     binds allSucceed 1 462 (d, cl, p) = (Inr (), d2, cl2, p2) \<and>
     descriptorOffset 1 0 = descriptorOffset 0 51 + 1 \<and>
     (\<exists>b. descriptors d2 (10, descriptorOffset 1 0) = Some (ConstantBufferView b)) \<and>
     shaderDescriptorHeap p2 = Some 10 \<and> heapSize d2 10 = Some 2560 \<and>
     descriptorOffset 1 461 + 1 = 2562 \<and>
     descriptors d2 (10, 2562) = Some (ShaderResourceView (Some 4))"
proof -
  have start: "shaderDescriptorHeap pipeline1 = Some 10" "samplerDescriptorHeap pipeline1 = Some 11"
    "len (constantBuffers pipeline1 0) = 0" "length (arr (constantBuffers pipeline1 0)) = 0"
    "lastFrameIndex pipeline1 = 0 \<or> (0::nat) = 0"
    "constantBuffers pipeline1 1 = nilSlice"
    by (simp_all add: pipeline1_eq nilSlice_def)
  have heap: "heapSize dev1 10 = Some 2560"
    by (simp add: dev1_eq frameCount_def numDescriptorsPerFrame_def
        numConstantBufferAndSourceTextures_def ShaderImageNum_def)
  have frames: "(0::nat) < frameCount" "(1::nat) < frameCount"
    by (simp_all add: frameCount_def)
  have budget0: "0 + 52 \<le> numDescriptorsPerFrame * 2" and budget1: "0 + 462 \<le> numDescriptorsPerFrame * 2"
    by (simp_all add: numDescriptorsPerFrame_def)
  have none: "\<forall>j<0::nat. descriptors d (10, descriptorOffset f j + 1) = Some (ShaderResourceView (Some 4)) \<and>
               (\<exists>b. descriptors d (10, descriptorOffset f j) = Some (ConstantBufferView b))" for d f
    by simp
  from binds_allSucceed [where d = dev1 and cl = "[]", OF start(1,2) frames(1) start(3,4,5) budget0 none]
  obtain d cl p where
    run0: "binds allSucceed 0 52 (dev1, [], pipeline1) = (Inr (), d, cl, p)"
    and st0: "shaderDescriptorHeap p = Some 10" "samplerDescriptorHeap p = Some 11"
      "heapSize d = heapSize dev1"
      "\<forall>g. g \<noteq> 0 \<longrightarrow> constantBuffers p g = constantBuffers pipeline1 g"
      "\<forall>j<0 + 52. descriptors d (10, descriptorOffset 0 j + 1) = Some (ShaderResourceView (Some 4)) \<and>
               (\<exists>b. descriptors d (10, descriptorOffset 0 j) = Some (ConstantBufferView b))"
    by (elim exE conjE) (rule that, assumption+)
  have slot1: "len (constantBuffers p 1) = 0" "length (arr (constantBuffers p 1)) = 0"
    "lastFrameIndex p = 1 \<or> (0::nat) = 0"
    using st0(4) start(6) by (simp_all add: nilSlice_def)
  from binds_allSucceed [where d = d and cl = cl, OF st0(1,2) frames(2) slot1 budget1 none]
  obtain d2 cl2 p2 where
    run1: "binds allSucceed 1 462 (d, cl, p) = (Inr (), d2, cl2, p2)"
    and st1: "shaderDescriptorHeap p2 = Some 10" "heapSize d2 = heapSize d"
      "\<forall>j<0 + 462. descriptors d2 (10, descriptorOffset 1 j + 1) = Some (ShaderResourceView (Some 4)) \<and>
               (\<exists>b. descriptors d2 (10, descriptorOffset 1 j) = Some (ConstantBufferView b))"
    by (elim exE conjE) (rule that, assumption+)
  have off: "descriptorOffset 1 0 = descriptorOffset 0 51 + 1" "descriptorOffset 1 461 + 1 = 2562"
    by (simp_all add: descriptorOffset_def numDescriptorsPerFrame_def
        numConstantBufferAndSourceTextures_def ShaderImageNum_def)
  have a: "descriptors d (10, descriptorOffset 0 51 + 1) = Some (ShaderResourceView (Some 4))"
    using st0(5) [rule_format, of 51] by simp
  have b: "\<exists>b. descriptors d2 (10, descriptorOffset 1 0) = Some (ConstantBufferView b)"
    using st1(3) [rule_format, of 0] by simp
  have c: "descriptors d2 (10, 2562) = Some (ShaderResourceView (Some 4))"
    using st1(3) [rule_format, of 461] off(2) by simp
  show ?thesis
    using run0 a run1 off b st1(1,2) st0(3) heap c
    by (intro exI [of _ d] exI [of _ cl] exI [of _ p] exI [of _ d2] exI [of _ cl2] exI [of _ p2] conjI)
       simp_all
qed




subsection \<open>Frames, images and buffers\<close>

text \<open>
  C6, as the claim states it: without a swap chain \<^verbatim>\<open>Begin\<close> selects the next slot in
  round-robin order. Before a swap chain exists, two calls of \<^verbatim>\<open>Begin\<close> in a row both
  select slot 0.
\<close>

theorem Begin_not_round_robin_counterexample:
  "swapChain graphicsInit = None \<and>
   fst (Begin allSucceed graphicsInit) = Inr () \<and>
   frameIndex (snd (Begin allSucceed graphicsInit)) = 0 \<and>
   fst (Begin allSucceed (snd (Begin allSucceed graphicsInit))) = Inr () \<and>
   frameIndex (snd (Begin allSucceed (snd (Begin allSucceed graphicsInit)))) = 0"
  by (simp add: Begin_def graphicsInit_def allSucceed_def frameCount_def Let_def)

text \<open>
  C6, amended: \<^verbatim>\<open>Begin\<close> selects slot 0, or, once a swap chain exists, the swap chain's
  current back-buffer index; it then resets that slot's command allocator and, if that
  succeeds, resets the command list onto that allocator, and returns the error of the
  first reset that fails.
\<close>

theorem Begin_selects_slot:
  assumes "Begin w g = (r, g1)"
  shows "frameIndex g1 = (if swapChain g = None then 0 else currentBackBufferIndex w) \<and>
         (frameIndex g1 < frameCount \<longrightarrow>
            r = (case allocatorReset w of
                   Some e \<Rightarrow> Inl e
                 | None \<Rightarrow> (case commandListReset w of Some e \<Rightarrow> Inl e | None \<Rightarrow> Inr ())) \<and>
            calls g1 = calls g @ AllocatorReset (frameIndex g1) #
               (if allocatorReset w = None then [CommandListReset (frameIndex g1)] else []))"
  using assms
  by (auto simp: Begin_def Let_def split: option.splits if_splits)

theorem Begin_selects_slot_witness:
  "Begin (allSucceed\<lparr>currentBackBufferIndex := 1\<rparr>) graphicsReady =
     (Inr (), graphicsReady\<lparr>frameIndex := 1, calls := [AllocatorReset 1, CommandListReset 1]\<rparr>) \<and>
   swapChain graphicsReady \<noteq> None \<and> (1::nat) < frameCount"
proof -
  have run: "Begin (allSucceed\<lparr>currentBackBufferIndex := 1\<rparr>) graphicsReady =
     (Inr (), graphicsReady\<lparr>frameIndex := 1, calls := [AllocatorReset 1, CommandListReset 1]\<rparr>)"
    by (simp add: Begin_def graphicsReady_def graphicsInit_def allSucceed_def frameCount_def Let_def)
  from Begin_selects_slot [OF run]
  have "frameIndex (graphicsReady\<lparr>frameIndex := 1, calls := [AllocatorReset 1, CommandListReset 1]\<rparr>) =
     (if swapChain graphicsReady = None then 0
      else currentBackBufferIndex (allSucceed\<lparr>currentBackBufferIndex := 1\<rparr>))"
    by blast
  then have "swapChain graphicsReady \<noteq> None" by (simp split: if_splits)
  then show ?thesis using run by (simp add: frameCount_def)
qed

lemma lastTransition_append:
  "lastTransition r (cs @ [ResourceBarrier r b a]) = Some a"
  by (induction cs) simp_all

text \<open>
  C9: on an image whose tracked state is the required one \<^verbatim>\<open>transiteState\<close> changes
  nothing; otherwise it records exactly one barrier, naming the image's resource, the
  tracked state and the required state, and sets the tracked state to the required one,
  leaving the other images as they are. So if the tracked state was the state the last
  recorded barrier for the resource left it in (when there is one), it still is.
\<close>

theorem transiteState_contract:
  assumes "imageHeap g a = Some i" and "resource g i = Inr r"
    and "transiteState (Some a) s g = (res, g1)"
  shows "res = Inr () \<and>
         (img_state i = s \<longrightarrow> g1 = g) \<and>
         (img_state i \<noteq> s \<longrightarrow>
            commandList g1 = commandList g @ [ResourceBarrier r (img_state i) s] \<and>
            lastTransition r (commandList g1) = Some s) \<and>
         imageHeap g1 = (imageHeap g)(a \<mapsto> i\<lparr>img_state := s\<rparr>) \<and>
         (lastTransition r (commandList g) \<in> {None, Some (img_state i)} \<longrightarrow>
            lastTransition r (commandList g1) \<in> {None, Some s})"
  using assms
  by (auto simp: transiteState_def lastTransition_append fun_upd_idem split: if_splits)


lemma transiteState_vertices:
  "transiteState a s (g\<lparr>vertices := v\<rparr>) =
     (case transiteState a s g of (r, g1) \<Rightarrow> (r, g1\<lparr>vertices := v\<rparr>))"
  by (simp add: transiteState_def resource_def split: option.splits sum.splits)

lemma transiteState_fields:
  assumes "transiteState a s g = (r, g1)"
  shows "vertices g1 = vertices g \<and> indices g1 = indices g \<and> frameIndex g1 = frameIndex g"
  using assms
  by (auto simp: transiteState_def split: option.splits sum.splits if_splits)


lemma setAsRenderTarget_fields:
  assumes "setAsRenderTarget w a g = (r, g1)"
  shows "vertices g1 = vertices g \<and> indices g1 = indices g \<and> frameIndex g1 = frameIndex g"
proof -
  obtain r0 g0 where t: "transiteState a D3D12_RESOURCE_STATE_RENDER_TARGET g = (r0, g0)"
    by (cases "transiteState a D3D12_RESOURCE_STATE_RENDER_TARGET g") blast
  note f = transiteState_fields [OF t]
  show ?thesis
    using assms f unfolding setAsRenderTarget_def t
    by (auto simp: Let_def create_def split: option.splits sum.splits prod.splits if_splits)
qed

lemma setAsRenderTarget_vertices:
  "setAsRenderTarget w a (g\<lparr>vertices := v\<rparr>) =
     (case setAsRenderTarget w a g of (r, g1) \<Rightarrow> (r, g1\<lparr>vertices := v\<rparr>))"
proof -
  obtain r0 g0 where t: "transiteState a D3D12_RESOURCE_STATE_RENDER_TARGET g = (r0, g0)"
    by (cases "transiteState a D3D12_RESOURCE_STATE_RENDER_TARGET g") blast
  show ?thesis
    unfolding setAsRenderTarget_def transiteState_vertices t
    by (simp add: Let_def create_def split: option.splits sum.splits prod.splits)
qed


lemma DrawTriangles_success:
  assumes "DrawTriangles w dstID src0 shaderGiven indexLen indexOffset mode g = (Inr (), g1)"
  shows "\<exists>vb ib pre.
           lastBuffer (vertices g (frameIndex g)) = Inr vb \<and>
           lastBuffer (indices g (frameIndex g)) = Inr ib \<and>
           commandList g1 = pre @ [IASetVertexBuffers vb, IASetIndexBuffer ib,
             DrawIndexedInstanced (word_of_int indexLen) (word_of_int indexOffset)]"
  using assms
  apply (auto simp: DrawTriangles_def Let_def
           split: option.splits sum.splits prod.splits if_splits)
   apply (frule setAsRenderTarget_fields, frule transiteState_fields, simp)+
  done


lemma resource_vertices: "resource (g\<lparr>vertices := v\<rparr>) i = resource g i"
  by (simp add: resource_def)

lemma DrawTriangles_steps:
  assumes "DrawTriangles w dstID src0 shaderGiven indexLen indexOffset mode g = (Inr (), g1)"
  shows "\<exists>da ga di sa gb si r d1 cl1 p1.
           \<not> shaderGiven \<and> images g dstID = Some da \<and>
           setAsRenderTarget w (Some da) g = (Inr (), ga) \<and> imageHeap ga da = Some di \<and>
           images ga src0 = Some sa \<and>
           transiteState (Some sa) D3D12_RESOURCE_STATE_PIXEL_SHADER_RESOURCE ga = (Inr (), gb) \<and>
           imageHeap gb sa = Some si \<and> resource gb si = Inr r \<and>
           useGraphicsPipelineState w (dev gb) (commandList gb) (pipeline gb) (frameIndex gb)
              \<lparr>compositeMode = mode, screen = img_screen di\<rparr>
              (fst (internalSize w di)) (snd (internalSize w di)) r = (Inr (), d1, cl1, p1) \<and>
           frameIndex gb = frameIndex g"
  using assms
  apply (auto simp: DrawTriangles_def Let_def
           split: option.splits sum.splits prod.splits if_splits)
  apply (frule setAsRenderTarget_fields, frule transiteState_fields, simp)
  done

lemma DrawTriangles_without_vertices:
  assumes "DrawTriangles w dstID src0 shaderGiven indexLen indexOffset mode g = (Inr (), g1)"
    and "len (v (frameIndex g)) = 0"
  shows "fst (DrawTriangles w dstID src0 shaderGiven indexLen indexOffset mode (g\<lparr>vertices := v\<rparr>))
         = Inl PanicIndexOutOfRange"
proof -
  from DrawTriangles_steps [OF assms(1)] obtain da ga di sa gb si r d1 cl1 p1 where
    st: "\<not> shaderGiven" "images g dstID = Some da"
      "setAsRenderTarget w (Some da) g = (Inr (), ga)" "imageHeap ga da = Some di"
      "images ga src0 = Some sa"
      "transiteState (Some sa) D3D12_RESOURCE_STATE_PIXEL_SHADER_RESOURCE ga = (Inr (), gb)"
      "imageHeap gb sa = Some si" "resource gb si = Inr r"
      "useGraphicsPipelineState w (dev gb) (commandList gb) (pipeline gb) (frameIndex gb)
              \<lparr>compositeMode = mode, screen = img_screen di\<rparr>
              (fst (internalSize w di)) (snd (internalSize w di)) r = (Inr (), d1, cl1, p1)"
      "frameIndex gb = frameIndex g"
    by (elim exE conjE) (rule that, assumption+)
  show ?thesis
    using st assms(2)
    by (simp add: DrawTriangles_def Let_def setAsRenderTarget_vertices transiteState_vertices
          resource_vertices lastBuffer_def case_prod_beta)
qed

lemma growByOne_len: "len (growByOne sp s) = len s + 1"
  by (simp add: growByOne_def reslice_def append1_def)

lemma growByOne_room: "len s \<le> cap s \<Longrightarrow> len s < length (arr (growByOne sp s))"
  by (auto simp: growByOne_def reslice_def append1_def cap_def)


lemma SetVertices_success:
  assumes "SetVertices w vs is g = (Inr (), g1)"
    and "len (vertices g (frameIndex g)) \<le> cap (vertices g (frameIndex g))"
    and "len (indices g (frameIndex g)) \<le> cap (indices g (frameIndex g))"
  shows "\<exists>vb ib.
           lastBuffer (vertices g1 (frameIndex g1)) = Inr vb \<and>
           lastBuffer (indices g1 (frameIndex g1)) = Inr ib \<and>
           bufferContents (dev g1) ib = Some (Uint16s is) \<and>
           (vb \<noteq> ib \<longrightarrow> bufferContents (dev g1) vb = Some (Float32s vs)) \<and>
           frameIndex g1 = frameIndex g \<and>
           len (vertices g1 (frameIndex g)) = len (vertices g (frameIndex g)) + 1 \<and>
           len (indices g1 (frameIndex g)) = len (indices g (frameIndex g)) + 1"
  using assms growByOne_room [OF assms(2), of "spareCap w"] growByOne_room [OF assms(3), of "spareCap w"]
  by (auto simp: SetVertices_def Let_def create_def setAt_def lastBuffer_def growByOne_len
           split: option.splits sum.splits prod.splits if_splits)


subsection \<open>Evaluating a frame\<close>

lemmas eval_state = allSucceed_def graphicsReady_def graphicsInit_def dev1_eq pipeline1_eq
  screenImage0_def offscreenImage0_def frameCount_def Let_def create_def Release_def
  nilSlice_def growByOne_def cap_def reslice_def append1_def setAt_def elems_def

lemmas eval_draw = DrawTriangles_def setAsRenderTarget_def transiteState_def resource_def
  internalSize_def useGraphicsPipelineState_def graphicsPipelineState_def blendFactors_def
  operationToBlend_def keyOf_def lastBuffer_def descriptorOffset_def numDescriptorsPerFrame_def
  numConstantBufferAndSourceTextures_def ShaderImageNum_def

lemmas eval_frame = drawn_def drawnAndDisposed_def submitted_def nextFrame_def
  removeImage_def End_def reclaim_def disposeImpl_def gpuWaitTimeout_def
  Begin_def backBufferOne_def timedOut_def

lemma recording_eq:
  "recording = graphicsReady\<lparr>calls := [AllocatorReset 0, CommandListReset 0]\<rparr>"
  by (simp add: recording_def Begin_def eval_state)

lemma withVertices_eq:
  "withVertices = recording\<lparr>
      dev := dev1\<lparr>nextHandle := 14,
                   bufferContents := [12 \<mapsto> Float32s [1, 2, 3], 13 \<mapsto> Uint16s [0, 1, 2]]\<rparr>,
      vertices := (\<lambda>i. nilSlice)(0 := \<lparr>arr = [Some 12], len = 1\<rparr>),
      indices := (\<lambda>i. nilSlice)(0 := \<lparr>arr = [Some 13], len = 1\<rparr>)\<rparr>"
  by (simp add: withVertices_def recording_eq SetVertices_def eval_state)

lemma frame_succeeds:
  "fst (Begin allSucceed graphicsReady) = Inr ()"
  "fst (SetVertices allSucceed [1, 2, 3] [0, 1, 2] recording) = Inr ()"
  "fst (DrawTriangles allSucceed 1 2 False 3 0 0 withVertices) = Inr ()"
  "fst (removeImage allSucceed 1 drawn) = Inr ()"
  "fst (End allSucceed True drawnAndDisposed) = Inr ()"
  "fst (Begin backBufferOne submitted) = Inr ()"
  by (simp_all add: withVertices_eq recording_eq SetVertices_def eval_state eval_draw eval_frame)

text \<open>
  C10: a successful \<^verbatim>\<open>SetVertices\<close> leaves, as the last elements of the current slot's two
  lists, the buffers it has copied the vertices and the indices into; a successful
  \<^verbatim>\<open>DrawTriangles\<close> binds the last elements of the two lists, which are then not empty; and
  the same draw in a state whose vertex list for the current slot is empty panics with an
  index out of range.
\<close>

theorem DrawTriangles_binds_last_buffers:
  "(SetVertices w vs is g0 = (Inr (), g) \<and>
    len (vertices g0 (frameIndex g0)) \<le> cap (vertices g0 (frameIndex g0)) \<and>
    len (indices g0 (frameIndex g0)) \<le> cap (indices g0 (frameIndex g0)) \<longrightarrow>
      (\<exists>vb ib. lastBuffer (vertices g (frameIndex g)) = Inr vb \<and>
         lastBuffer (indices g (frameIndex g)) = Inr ib \<and>
         bufferContents (dev g) ib = Some (Uint16s is) \<and>
         (vb \<noteq> ib \<longrightarrow> bufferContents (dev g) vb = Some (Float32s vs)))) \<and>
   (DrawTriangles w dstID src0 shaderGiven indexLen indexOffset mode g = (Inr (), g1) \<longrightarrow>
      (\<exists>vb ib pre. lastBuffer (vertices g (frameIndex g)) = Inr vb \<and>
         lastBuffer (indices g (frameIndex g)) = Inr ib \<and>
         commandList g1 = pre @ [IASetVertexBuffers vb, IASetIndexBuffer ib,
           DrawIndexedInstanced (word_of_int indexLen) (word_of_int indexOffset)]) \<and>
      0 < len (vertices g (frameIndex g)) \<and> 0 < len (indices g (frameIndex g)) \<and>
      (\<forall>v. len (v (frameIndex g)) = 0 \<longrightarrow>
         fst (DrawTriangles w dstID src0 shaderGiven indexLen indexOffset mode (g\<lparr>vertices := v\<rparr>))
         = Inl PanicIndexOutOfRange))"
proof (intro conjI impI)
  assume "SetVertices w vs is g0 = (Inr (), g) \<and>
    len (vertices g0 (frameIndex g0)) \<le> cap (vertices g0 (frameIndex g0)) \<and>
    len (indices g0 (frameIndex g0)) \<le> cap (indices g0 (frameIndex g0))"
  then show "\<exists>vb ib. lastBuffer (vertices g (frameIndex g)) = Inr vb \<and>
         lastBuffer (indices g (frameIndex g)) = Inr ib \<and>
         bufferContents (dev g) ib = Some (Uint16s is) \<and>
         (vb \<noteq> ib \<longrightarrow> bufferContents (dev g) vb = Some (Float32s vs))"
    using SetVertices_success [of w vs "is" g0 g] by blast
next
  assume run: "DrawTriangles w dstID src0 shaderGiven indexLen indexOffset mode g = (Inr (), g1)"
  from DrawTriangles_success [OF run] obtain vb ib pre where
    bound: "lastBuffer (vertices g (frameIndex g)) = Inr vb"
      "lastBuffer (indices g (frameIndex g)) = Inr ib"
      "commandList g1 = pre @ [IASetVertexBuffers vb, IASetIndexBuffer ib,
           DrawIndexedInstanced (word_of_int indexLen) (word_of_int indexOffset)]"
    by blast
  then show "\<exists>vb ib pre. lastBuffer (vertices g (frameIndex g)) = Inr vb \<and>
         lastBuffer (indices g (frameIndex g)) = Inr ib \<and>
         commandList g1 = pre @ [IASetVertexBuffers vb, IASetIndexBuffer ib,
           DrawIndexedInstanced (word_of_int indexLen) (word_of_int indexOffset)]"
    by blast
  from bound(1) show "0 < len (vertices g (frameIndex g))"
    by (simp add: lastBuffer_def split: if_splits)
  from bound(2) show "0 < len (indices g (frameIndex g))"
    by (simp add: lastBuffer_def split: if_splits)
  show "\<forall>v. len (v (frameIndex g)) = 0 \<longrightarrow>
         fst (DrawTriangles w dstID src0 shaderGiven indexLen indexOffset mode (g\<lparr>vertices := v\<rparr>))
         = Inl PanicIndexOutOfRange"
    using DrawTriangles_without_vertices [OF run] by blast
qed

theorem DrawTriangles_binds_last_buffers_witness:
  "SetVertices allSucceed [1, 2, 3] [0, 1, 2] recording = (Inr (), withVertices) \<and>
   len (vertices recording (frameIndex recording)) \<le> cap (vertices recording (frameIndex recording)) \<and>
   len (indices recording (frameIndex recording)) \<le> cap (indices recording (frameIndex recording)) \<and>
   DrawTriangles allSucceed 1 2 False 3 0 0 withVertices = (Inr (), drawn) \<and>
   lastBuffer (vertices withVertices (frameIndex withVertices)) = Inr 12 \<and>
   lastBuffer (indices withVertices (frameIndex withVertices)) = Inr 13 \<and>
   bufferContents (dev withVertices) 12 = Some (Float32s [1, 2, 3]) \<and>
   bufferContents (dev withVertices) 13 = Some (Uint16s [0, 1, 2]) \<and>
   (\<exists>pre. commandList drawn = pre @ [IASetVertexBuffers 12, IASetIndexBuffer 13,
           DrawIndexedInstanced 3 0]) \<and>
   len (vertices recording (frameIndex withVertices)) = 0 \<and>
   fst (DrawTriangles allSucceed 1 2 False 3 0 0 (withVertices\<lparr>vertices := vertices recording\<rparr>))
     = Inl PanicIndexOutOfRange \<and>
   fst (DrawTriangles allSucceed 1 2 False 3 0 0 recording) = Inl PanicIndexOutOfRange"
proof -
  have setv: "SetVertices allSucceed [1, 2, 3] [0, 1, 2] recording = (Inr (), withVertices)"
    using frame_succeeds(2) by (simp add: withVertices_def prod_eq_iff)
  have draw: "DrawTriangles allSucceed 1 2 False 3 0 0 withVertices = (Inr (), drawn)"
    using frame_succeeds(3) by (simp add: drawn_def prod_eq_iff)
  have wf: "len (vertices recording (frameIndex recording)) \<le> cap (vertices recording (frameIndex recording))"
    "len (indices recording (frameIndex recording)) \<le> cap (indices recording (frameIndex recording))"
    by (simp_all add: recording_eq eval_state)
  have last: "lastBuffer (vertices withVertices (frameIndex withVertices)) = Inr 12"
    "lastBuffer (indices withVertices (frameIndex withVertices)) = Inr 13"
    "bufferContents (dev withVertices) 12 = Some (Float32s [1, 2, 3])"
    "bufferContents (dev withVertices) 13 = Some (Uint16s [0, 1, 2])"
    "len (vertices recording (frameIndex withVertices)) = 0"
    by (simp_all add: withVertices_eq recording_eq eval_state lastBuffer_def)
  note inst = DrawTriangles_binds_last_buffers
    [of allSucceed "[1, 2, 3]" "[0, 1, 2]" recording withVertices 1 2 False 3 0 0 drawn]
  from inst draw obtain vb ib pre where
    bound: "lastBuffer (vertices withVertices (frameIndex withVertices)) = Inr vb"
      "lastBuffer (indices withVertices (frameIndex withVertices)) = Inr ib"
      "commandList drawn = pre @ [IASetVertexBuffers vb, IASetIndexBuffer ib,
           DrawIndexedInstanced (word_of_int 3) (word_of_int 0)]"
    by blast
  from bound(1,2) last(1,2) have "vb = 12" "ib = 13" by simp_all
  with bound(3) have cmds: "\<exists>pre. commandList drawn = pre @ [IASetVertexBuffers 12, IASetIndexBuffer 13,
           DrawIndexedInstanced 3 0]"
    by simp
  from inst draw last(5) have panic:
    "fst (DrawTriangles allSucceed 1 2 False 3 0 0 (withVertices\<lparr>vertices := vertices recording\<rparr>))
     = Inl PanicIndexOutOfRange"
    by blast
  have direct: "fst (DrawTriangles allSucceed 1 2 False 3 0 0 recording) = Inl PanicIndexOutOfRange"
    by (simp add: recording_eq eval_state eval_draw)
  from setv wf draw last cmds panic direct show ?thesis by simp
qed


theorem transiteState_contract_witness:
  "imageHeap graphicsReady 1 = Some offscreenImage0 \<and>
   resource graphicsReady offscreenImage0 = Inr (Some 4) \<and>
   transiteState (Some 1) D3D12_RESOURCE_STATE_RENDER_TARGET graphicsReady =
     (Inr (),
      graphicsReady\<lparr>commandList :=
          [ResourceBarrier (Some 4) D3D12_RESOURCE_STATE_PIXEL_SHADER_RESOURCE
             D3D12_RESOURCE_STATE_RENDER_TARGET],
        imageHeap := (imageHeap graphicsReady)
          (1 \<mapsto> offscreenImage0\<lparr>img_state := D3D12_RESOURCE_STATE_RENDER_TARGET\<rparr>)\<rparr>) \<and>
   lastTransition (Some 4) (commandList graphicsReady) = None \<and>
   lastTransition (Some 4)
     (commandList (snd (transiteState (Some 1) D3D12_RESOURCE_STATE_RENDER_TARGET graphicsReady)))
     = Some D3D12_RESOURCE_STATE_RENDER_TARGET \<and>
   transiteState (Some 1) D3D12_RESOURCE_STATE_PIXEL_SHADER_RESOURCE graphicsReady =
     (Inr (), graphicsReady)"
proof -
  have img: "imageHeap graphicsReady 1 = Some offscreenImage0"
    by (simp add: graphicsReady_def)
  have res: "resource graphicsReady offscreenImage0 = Inr (Some 4)"
    by (simp add: resource_def offscreenImage0_def)
  have st: "img_state offscreenImage0 = D3D12_RESOURCE_STATE_PIXEL_SHADER_RESOURCE"
    by (simp add: offscreenImage0_def)
  have cl: "commandList graphicsReady = []"
    by (simp add: graphicsReady_def graphicsInit_def)
  obtain r1 g1 where t1:
    "transiteState (Some 1) D3D12_RESOURCE_STATE_RENDER_TARGET graphicsReady = (r1, g1)"
    by (cases "transiteState (Some 1) D3D12_RESOURCE_STATE_RENDER_TARGET graphicsReady") blast
  obtain r2 g2 where t2:
    "transiteState (Some 1) D3D12_RESOURCE_STATE_PIXEL_SHADER_RESOURCE graphicsReady = (r2, g2)"
    by (cases "transiteState (Some 1) D3D12_RESOURCE_STATE_PIXEL_SHADER_RESOURCE graphicsReady") blast
  from transiteState_contract [OF img res t1] st cl
  have a: "r1 = Inr ()"
    "commandList g1 = [ResourceBarrier (Some 4) D3D12_RESOURCE_STATE_PIXEL_SHADER_RESOURCE
             D3D12_RESOURCE_STATE_RENDER_TARGET]"
    "lastTransition (Some 4) (commandList g1) = Some D3D12_RESOURCE_STATE_RENDER_TARGET"
    by simp_all
  from transiteState_contract [OF img res t2] st
  have b: "r2 = Inr ()" "g2 = graphicsReady" by simp_all
  have c: "g1 = graphicsReady\<lparr>commandList :=
          [ResourceBarrier (Some 4) D3D12_RESOURCE_STATE_PIXEL_SHADER_RESOURCE
             D3D12_RESOURCE_STATE_RENDER_TARGET],
        imageHeap := (imageHeap graphicsReady)
          (1 \<mapsto> offscreenImage0\<lparr>img_state := D3D12_RESOURCE_STATE_RENDER_TARGET\<rparr>)\<rparr>"
    using t1 img res st cl by (simp add: transiteState_def)
  show ?thesis using img res t1 t2 a b c cl by simp
qed

lemma nextFrame_facts:
  "frameIndex nextFrame = 1" "fenceValues nextFrame 0 = 1" "swapChain nextFrame = Some 1"
  "elems (vertices nextFrame 0) = [Some 12]" "elems (indices nextFrame 0) = [Some 13]"
  "elems (disposedImages nextFrame 0) = [Some 1]"
  "imageHeap nextFrame 1 = Some offscreenImage0"
  "released (dev nextFrame) = [14]"
  by (simp_all add: withVertices_eq recording_eq eval_state eval_draw eval_frame)

text \<open>
  C4 fails on the code. The wait is given the timeout \<open>gpuWaitTimeout = 10000\<close> ms, but
  \<^verbatim>\<open>End\<close> looks only at the error result of \<^verbatim>\<open>WaitForSingleObject\<close> and drops the wait
  status. In the second frame of the example the fence of slot 0 still reads 0 where 1 is
  expected and the wait times out: \<^verbatim>\<open>End\<close> returns no error.
\<close>

theorem End_timeout_returns_no_error:
  "frameIndex nextFrame = 1 \<and>
   completedValue timedOut < fenceValues nextFrame 0 \<and>
   waitForSingleObject timedOut = (0x102, None) \<and>
   fst (End timedOut True nextFrame) = Inr () \<and>
   calls (snd (End timedOut True nextFrame)) = calls nextFrame @
     [CommandListClose, ExecuteCommandLists [], Present, Signal 1 1,
      SetEventOnCompletion 0 1, WaitForSingleObject 10000]"
  by (simp add: withVertices_eq recording_eq eval_state eval_draw eval_frame)

text \<open>
  C1 fails on the code, by the same defect. In that call of \<^verbatim>\<open>End\<close> the GPU has not
  finished the submission of slot 0 (its fence reads 0, the value signalled is 1), the
  wait times out, and \<^verbatim>\<open>End\<close> goes on to truncate the vertex and index lists of slot 0 and
  to release the texture (handle 4) of the image disposed in that frame, which the draw
  of that frame reads.
\<close>

theorem End_reclaims_unfinished_slot:
  "completedValue timedOut < fenceValues nextFrame 0 \<and>
   waitForSingleObject timedOut = (0x102, None) \<and>
   elems (vertices nextFrame 0) = [Some 12] \<and> elems (indices nextFrame 0) = [Some 13] \<and>
   elems (disposedImages nextFrame 0) = [Some 1] \<and>
   imageHeap nextFrame 1 = Some offscreenImage0 \<and> img_texture offscreenImage0 = Some 4 \<and>
   released (dev nextFrame) = [14] \<and>
   fst (End timedOut True nextFrame) = Inr () \<and>
   elems (vertices (snd (End timedOut True nextFrame)) 0) = [] \<and>
   elems (indices (snd (End timedOut True nextFrame)) 0) = [] \<and>
   elems (disposedImages (snd (End timedOut True nextFrame)) 0) = [] \<and>
   released (dev (snd (End timedOut True nextFrame))) = [14, 4]"
  by (simp add: withVertices_eq recording_eq eval_state eval_draw eval_frame)

end
